theory Spec2Isabelle
  imports Main
begin

section \<open>Data model of the prover\<close>

text \<open>
  The scalar field of the source (class \<open>Scalar\<close>) is any type of class \<open>field\<close>;
  \<open>Scalar(k)\<close> for a Python integer \<open>k\<close> is \<open>of_int k\<close>.  The division of two scalars is
  the division of the field, a total operation with \<open>x / 0 = 0\<close>: the field elements the
  source builds on take \<open>0\<close> as the inverse of \<open>0\<close> and never raise, and the only division
  with an error path of its own, the pointwise division of polynomials, is not used by
  the prover, which divides scalar by scalar.  Commitments (group elements)
  are an arbitrary type \<open>'g\<close>.  Variable names are \<open>Optional[str]\<close>, so a witness is a
  partial map from \<open>string option\<close> to \<open>int\<close>.
\<close>

datatype py_error = AssertionError | KeyError | IndexError | AttributeError

datatype Basis = LAGRANGE | MONOMIAL

record 'f Polynomial =
  vals :: "'f list"
  basis :: Basis

type_synonym witness = "string option \<rightharpoonup> int"

text \<open>The five round messages (declared in the transcript module): plain tuples of fields.\<close>

datatype 'g Message1 = Message1 (a_1: 'g) (b_1: 'g) (c_1: 'g)
datatype 'g Message2 = Message2 (z_1: 'g)
datatype 'g Message3 = Message3 (t_lo_1: 'g) (t_mid_1: 'g) (t_hi_1: 'g)
datatype 'f Message4 = Message4 (a_eval: 'f) (b_eval: 'f) (c_eval: 'f)
  (s1_eval: 'f) (s2_eval: 'f) (z_shifted_eval: 'f)
datatype 'g Message5 = Message5 (W_z_1: 'g) (W_zw_1: 'g)

record ('f, 'g) Proof =
  msg_1 :: "'g Message1"
  msg_2 :: "'g Message2"
  msg_3 :: "'g Message3"
  msg_4 :: "'f Message4"
  msg_5 :: "'g Message5"

subsection \<open>\<open>Proof.flatten\<close>\<close>

text \<open>
  A Python \<open>dict\<close> keeps insertion order, so the flattened proof is an association list.
  \<open>dict_set\<close> is the assignment \<open>d[k] = v\<close>: an existing key keeps its position and gets the
  new value, a new key is appended.  The values of the flattened proof are group elements
  or scalars.
\<close>

datatype ('f, 'g) proof_value = Point 'g | Scal 'f

fun dict_set :: "('k \<times> 'v) list \<Rightarrow> 'k \<Rightarrow> 'v \<Rightarrow> ('k \<times> 'v) list" where
  "dict_set [] k v = [(k, v)]"
| "dict_set ((k', v') # d) k v = (if k' = k then (k, v) # d else (k', v') # dict_set d k v)"

definition flatten :: "('f, 'g) Proof \<Rightarrow> (string \<times> ('f, 'g) proof_value) list" where
  "flatten self =
    (let proof = [];
         proof = dict_set proof ''a_1'' (Point (a_1 (msg_1 self)));
         proof = dict_set proof ''b_1'' (Point (b_1 (msg_1 self)));
         proof = dict_set proof ''c_1'' (Point (c_1 (msg_1 self)));
         proof = dict_set proof ''z_1'' (Point (z_1 (msg_2 self)));
         proof = dict_set proof ''t_lo_1'' (Point (t_lo_1 (msg_3 self)));
         proof = dict_set proof ''t_mid_1'' (Point (t_mid_1 (msg_3 self)));
         proof = dict_set proof ''t_hi_1'' (Point (t_hi_1 (msg_3 self)));
         proof = dict_set proof ''a_eval'' (Scal (a_eval (msg_4 self)));
         proof = dict_set proof ''b_eval'' (Scal (b_eval (msg_4 self)));
         proof = dict_set proof ''c_eval'' (Scal (c_eval (msg_4 self)));
         proof = dict_set proof ''s1_eval'' (Scal (s1_eval (msg_4 self)));
         proof = dict_set proof ''s2_eval'' (Scal (s2_eval (msg_4 self)));
         proof = dict_set proof ''z_shifted_eval'' (Scal (z_shifted_eval (msg_4 self)));
         proof = dict_set proof ''W_z_1'' (Point (W_z_1 (msg_5 self)));
         proof = dict_set proof ''W_zw_1'' (Point (W_zw_1 (msg_5 self)))
     in proof)"

section \<open>Errors and mutable state\<close>

text \<open>
  A Python call either returns a value or raises; in both cases the objects it mutated
  keep their new contents.  A method is therefore a function from the state to a result
  (\<open>Inl\<close> the exception raised, \<open>Inr\<close> the value returned) together with the state left
  behind.  \<open>bind_st\<close> is sequencing: the first exception stops the run.
\<close>

definition bind_err :: "'e + 'a \<Rightarrow> ('a \<Rightarrow> 'e + 'b) \<Rightarrow> 'e + 'b" where
  "bind_err m f = (case m of Inl e \<Rightarrow> Inl e | Inr x \<Rightarrow> f x)"

definition bind_st ::
  "('s \<Rightarrow> ('e + 'a) \<times> 's) \<Rightarrow> ('a \<Rightarrow> 's \<Rightarrow> ('e + 'b) \<times> 's) \<Rightarrow> 's \<Rightarrow> ('e + 'b) \<times> 's" where
  "bind_st m f s = (case m s of (Inl e, s') \<Rightarrow> (Inl e, s') | (Inr x, s') \<Rightarrow> f x s')"

definition returns :: "'a \<Rightarrow> 's \<Rightarrow> ('e + 'a) \<times> 's" where
  "returns x s = (Inr x, s)"

definition lift_err :: "'e + 'a \<Rightarrow> 's \<Rightarrow> ('e + 'a) \<times> 's" where
  "lift_err r s = (r, s)"

definition gets :: "('s \<Rightarrow> 'a) \<Rightarrow> 's \<Rightarrow> ('e + 'a) \<times> 's" where
  "gets f s = (Inr (f s), s)"

definition attr :: "('s \<Rightarrow> 'a option) \<Rightarrow> 's \<Rightarrow> (py_error + 'a) \<times> 's" where
  \<comment> \<open>reading an attribute: \<open>AttributeError\<close> when it was never assigned\<close>
  "attr sel s = (case sel s of None \<Rightarrow> (Inl AttributeError, s) | Some x \<Rightarrow> (Inr x, s))"

definition assign :: "('s \<Rightarrow> 's) \<Rightarrow> 's \<Rightarrow> ('e + unit) \<times> 's" where
  "assign f s = (Inr (), f s)"

definition py_assert :: "bool \<Rightarrow> 's \<Rightarrow> (py_error + unit) \<times> 's" where
  "py_assert b s = (if b then (Inr (), s) else (Inl AssertionError, s))"

definition guard :: "bool \<Rightarrow> py_error \<Rightarrow> 's \<Rightarrow> (py_error + unit) \<times> 's" where
  \<comment> \<open>\<open>guard b e\<close> raises \<open>e\<close> when \<open>b\<close> holds\<close>
  "guard b e s = (if b then (Inl e, s) else (Inr (), s))"

definition nth_err :: "'a list \<Rightarrow> nat \<Rightarrow> py_error + 'a" where
  \<comment> \<open>\<open>xs[i]\<close> for a non-negative index\<close>
  "nth_err xs i = (if i < length xs then Inr (xs ! i) else Inl IndexError)"

section \<open>Scalar library and polynomial engine\<close>

text \<open>
  Modelled from the spec: \<open>Scalar.roots_of_unity\<close> (the utils module is not part of the
  sources at hand).  The spec fixes, for a domain of size \<open>n\<close>, a generator \<open>\<omega>\<close> of the
  multiplicative subgroup of order \<open>n\<close> and evaluates at \<open>\<omega>^0, \<dots>, \<omega>^(n-1)\<close>.  The
  generator chosen for each order is the parameter \<open>rt\<close>.
\<close>

definition roots_of_unity :: "(nat \<Rightarrow> 'f::field) \<Rightarrow> nat \<Rightarrow> 'f list" where
  "roots_of_unity rt order = map (\<lambda>i. rt order ^ i) [0..<order]"

text \<open>The value \<open>\<Sum> c\<^sub>i x^i\<close> of a coefficient list.\<close>

fun peval :: "'f::field list \<Rightarrow> 'f \<Rightarrow> 'f" where
  "peval [] x = 0"
| "peval (c # cs) x = c + x * peval cs x"

text \<open>
  Modelled from the spec: pointwise \<open>+\<close> and \<open>*\<close> of class \<open>Polynomial\<close> (the poly module
  is not part of the sources at hand): defined only between polynomials of identical basis
  and length, anything else is an error.
\<close>

definition poly_add :: "'f::field Polynomial \<Rightarrow> 'f Polynomial \<Rightarrow> py_error + 'f Polynomial" where
  "poly_add p q =
    (if length (vals p) \<noteq> length (vals q) \<or> basis p \<noteq> basis q then Inl AssertionError
     else Inr \<lparr>vals = map2 (+) (vals p) (vals q), basis = basis p\<rparr>)"

definition poly_mul :: "'f::field Polynomial \<Rightarrow> 'f Polynomial \<Rightarrow> py_error + 'f Polynomial" where
  "poly_mul p q =
    (if length (vals p) \<noteq> length (vals q) \<or> basis p \<noteq> basis q then Inl AssertionError
     else Inr \<lparr>vals = map2 (*) (vals p) (vals q), basis = basis p\<rparr>)"

text \<open>
  Modelled from the spec: \<open>Polynomial.fft\<close> and \<open>Polynomial.ifft\<close>, the basis swap between
  \<open>MONOMIAL\<close> and \<open>LAGRANGE\<close> by the forward and inverse discrete Fourier transform of the
  size of the polynomial: the forward transform evaluates the coefficient list at the
  roots of unity, the inverse transform evaluates the value list at the inverse roots and
  divides by the size.  Applying one to the wrong basis is an error.
\<close>

definition fft :: "(nat \<Rightarrow> 'f::field) \<Rightarrow> 'f Polynomial \<Rightarrow> py_error + 'f Polynomial" where
  "fft rt p =
    (if basis p \<noteq> MONOMIAL then Inl AssertionError
     else Inr \<lparr>vals = map (peval (vals p)) (roots_of_unity rt (length (vals p))),
               basis = LAGRANGE\<rparr>)"

definition ifft :: "(nat \<Rightarrow> 'f::field) \<Rightarrow> 'f Polynomial \<Rightarrow> py_error + 'f Polynomial" where
  "ifft rt p =
    (if basis p \<noteq> LAGRANGE then Inl AssertionError
     else let order = length (vals p) in
       Inr \<lparr>vals = map (\<lambda>j. peval (vals p) (inverse (rt order) ^ j) / of_nat order) [0..<order],
            basis = MONOMIAL\<rparr>)"

text \<open>
  Modelled from the spec: \<open>to_coset_extended_lagrange\<close> (a \<open>LAGRANGE\<close> polynomial of
  length \<open>n\<close> is converted through monomial form; then \<open>X\<close> is replaced by \<open>offset * X\<close> and a
  transform of length \<open>4n\<close> follows) and \<open>coset_extended_lagrange_to_coeffs\<close> (the inverse
  transform, then \<open>X\<close> is replaced by \<open>X / offset\<close>).  The source has the two tags
  \<open>LAGRANGE\<close> and \<open>MONOMIAL\<close> only and tags the evaluations over the coset \<open>LAGRANGE\<close>.
\<close>

definition to_coset_extended_lagrange ::
  "(nat \<Rightarrow> 'f::field) \<Rightarrow> 'f Polynomial \<Rightarrow> 'f \<Rightarrow> py_error + 'f Polynomial" where
  "to_coset_extended_lagrange rt p offset =
    bind_err (if basis p = LAGRANGE then ifft rt p else Inr p) (\<lambda>m.
      let group_order = length (vals m);
          x_powers = map2 (\<lambda>i x. offset ^ i * x) [0..<group_order] (vals m)
                     @ replicate (group_order * 3) 0
      in fft rt \<lparr>vals = x_powers, basis = MONOMIAL\<rparr>)"

definition coset_extended_lagrange_to_coeffs ::
  "(nat \<Rightarrow> 'f::field) \<Rightarrow> 'f Polynomial \<Rightarrow> 'f \<Rightarrow> py_error + 'f Polynomial" where
  "coset_extended_lagrange_to_coeffs rt p offset =
    bind_err (ifft rt p) (\<lambda>shifted_coeffs.
      let inv_offset = 1 / offset in
      Inr \<lparr>vals = map2 (\<lambda>i v. v * inv_offset ^ i)
                    [0..<length (vals shifted_coeffs)] (vals shifted_coeffs),
           basis = MONOMIAL\<rparr>)"

text \<open>
  Modelled from the spec: \<open>Polynomial.shift\<close>, the rotation of the evaluations to the left
  by \<open>k\<close> positions, so that entry \<open>i\<close> of the result is entry \<open>(i + k) mod length\<close> of the
  argument.
\<close>

definition shift :: "'f Polynomial \<Rightarrow> nat \<Rightarrow> py_error + 'f Polynomial" where
  "shift p k =
    (if basis p \<noteq> LAGRANGE then Inl AssertionError
     else Inr \<lparr>vals = rotate k (vals p), basis = LAGRANGE\<rparr>)"

text \<open>
  Modelled from the spec: \<open>Polynomial.barycentric_eval\<close>, the value at an arbitrary \<open>x\<close> of
  the interpolant of a \<open>LAGRANGE\<close> polynomial, by the barycentric formula
  \<open>(x^n - 1) / n * \<Sum> v\<^sub>i * \<omega>^i / (x - \<omega>^i)\<close>; when \<open>x\<close> is itself a root of unity the
  corresponding value is returned directly.
\<close>

definition barycentric_eval ::
  "(nat \<Rightarrow> 'f::field) \<Rightarrow> 'f Polynomial \<Rightarrow> 'f \<Rightarrow> py_error + 'f" where
  "barycentric_eval rt p x =
    (if basis p \<noteq> LAGRANGE then Inl AssertionError
     else let order = length (vals p);
              roots = roots_of_unity rt order
          in case find (\<lambda>(value, root). root = x) (zip (vals p) roots) of
               Some (value, root) \<Rightarrow> Inr value
             | None \<Rightarrow>
                 Inr ((x ^ order - 1) / of_nat order
                      * sum_list (map (\<lambda>(value, root). value * root / (x - root))
                                      (zip (vals p) roots))))"

section \<open>The prover\<close>

text \<open>
  The circuit front-end, the trusted setup and the transcript are collaborators whose code
  is not part of the sources at hand; what the prover uses of them is taken as data:
  the results of \<open>program.wires()\<close>, \<open>program.get_public_assignments()\<close> and
  \<open>program.common_preprocessed_input()\<close>, the function \<open>setup.commit\<close>, and the four
  transcript hooks, each of which absorbs a message into the transcript's state and
  squeezes challenges.

  Modelled from the spec: \<open>setup.commit\<close> maps a polynomial to a group element, and it
  has an error path of its own (a polynomial it does not accept, such as one whose degree
  overflows the setup, is a fatal error raised at commit time).  Which polynomials a setup
  accepts is not fixed here: \<open>commit\<close> is any function from polynomials to results, \<open>Inl\<close>
  the exception it raises.
\<close>

datatype Wire = Wire (wire_L: "string option") (wire_R: "string option") (wire_O: "string option")

record 'f CommonPreprocessedInput =
  QM :: "'f Polynomial"
  QL :: "'f Polynomial"
  QR :: "'f Polynomial"
  QO :: "'f Polynomial"
  QC :: "'f Polynomial"
  S1 :: "'f Polynomial"
  S2 :: "'f Polynomial"
  S3 :: "'f Polynomial"

record 'f Program =
  program_group_order :: nat
  wires :: "Wire list"
  get_public_assignments :: "string option list"
  common_preprocessed_input :: "'f CommonPreprocessedInput"

record ('f, 'g) Setup =
  commit :: "'f Polynomial \<Rightarrow> py_error + 'g"

record ('f, 'g, 't) Transcript =
  new_transcript :: 't
  transcript_round_1 :: "'t \<Rightarrow> 'g Message1 \<Rightarrow> ('f \<times> 'f) \<times> 't"
  transcript_round_2 :: "'t \<Rightarrow> 'g Message2 \<Rightarrow> ('f \<times> 'f) \<times> 't"
  transcript_round_3 :: "'t \<Rightarrow> 'g Message3 \<Rightarrow> 'f \<times> 't"
  transcript_round_4 :: "'t \<Rightarrow> 'f Message4 \<Rightarrow> 'f \<times> 't"

text \<open>
  The \<open>Prover\<close> object.  The four dataclass fields are set by \<open>__init__\<close>; every other
  attribute is created by an assignment \<open>self.x = \<dots>\<close> during \<open>prove\<close> and is absent
  (\<open>None\<close>) before.
\<close>

record ('f, 'g) Prover =
  self_group_order :: nat
  self_setup :: "('f, 'g) Setup"
  self_program :: "'f Program"
  self_pk :: "'f CommonPreprocessedInput"
  self_PI :: "'f Polynomial option"
  self_A :: "'f Polynomial option"
  self_B :: "'f Polynomial option"
  self_C :: "'f Polynomial option"
  self_beta :: "'f option"
  self_gamma :: "'f option"
  self_Z :: "'f Polynomial option"
  self_alpha :: "'f option"
  self_fft_cofactor :: "'f option"
  self_quarter_roots :: "'f list option"
  self_A_big :: "'f Polynomial option"
  self_B_big :: "'f Polynomial option"
  self_C_big :: "'f Polynomial option"
  self_S1_big :: "'f Polynomial option"
  self_S2_big :: "'f Polynomial option"
  self_S3_big :: "'f Polynomial option"
  self_T1 :: "'f Polynomial option"
  self_T2 :: "'f Polynomial option"
  self_T3 :: "'f Polynomial option"
  self_zeta :: "'f option"
  self_a_eval :: "'f option"
  self_b_eval :: "'f option"
  self_c_eval :: "'f option"
  self_s1_eval :: "'f option"
  self_s2_eval :: "'f option"
  self_z_shifted_eval :: "'f option"
  self_v :: "'f option"

definition new_Prover :: "('f, 'g) Setup \<Rightarrow> 'f Program \<Rightarrow> ('f, 'g) Prover" where
  "new_Prover setup_arg program =
    \<lparr>self_group_order = program_group_order program, self_setup = setup_arg, self_program = program,
     self_pk = common_preprocessed_input program,
     self_PI = None, self_A = None, self_B = None, self_C = None,
     self_beta = None, self_gamma = None, self_Z = None,
     self_alpha = None, self_fft_cofactor = None, self_quarter_roots = None,
     self_A_big = None, self_B_big = None, self_C_big = None,
     self_S1_big = None, self_S2_big = None, self_S3_big = None,
     self_T1 = None, self_T2 = None, self_T3 = None, self_zeta = None,
     self_a_eval = None, self_b_eval = None, self_c_eval = None,
     self_s1_eval = None, self_s2_eval = None, self_z_shifted_eval = None,
     self_v = None\<rparr>"

definition rlc :: "'f::field \<Rightarrow> 'f \<Rightarrow> 'f \<Rightarrow> 'f \<Rightarrow> 'f" where
  \<comment> \<open>\<open>self.rlc(term_1, term_2)\<close>, with \<open>self.beta\<close> and \<open>self.gamma\<close> passed in\<close>
  "rlc beta gamma term_1 term_2 = term_1 + term_2 * beta + gamma"

subsection \<open>Round 1\<close>

text \<open>
  The loop over \<open>enumerate(program.wires())\<close>.  In each assignment the right-hand side
  \<open>witness[wire.L]\<close> is evaluated first (\<open>KeyError\<close>), then the store into the list of
  length \<open>group_order\<close> (\<open>IndexError\<close> when there are more wires than rows).
\<close>

fun fill_wires ::
  "witness \<Rightarrow> Wire list \<Rightarrow> nat \<Rightarrow> int list \<times> int list \<times> int list
    \<Rightarrow> py_error + (int list \<times> int list \<times> int list)" where
  "fill_wires witness [] i (A_values, B_values, C_values) = Inr (A_values, B_values, C_values)"
| "fill_wires witness (wire # ws) i (A_values, B_values, C_values) =
    (case witness (wire_L wire) of None \<Rightarrow> Inl KeyError | Some a \<Rightarrow>
     if length A_values \<le> i then Inl IndexError else
     case witness (wire_R wire) of None \<Rightarrow> Inl KeyError | Some b \<Rightarrow>
     if length B_values \<le> i then Inl IndexError else
     case witness (wire_O wire) of None \<Rightarrow> Inl KeyError | Some c \<Rightarrow>
     if length C_values \<le> i then Inl IndexError else
     fill_wires witness ws (Suc i) (A_values[i := a], B_values[i := b], C_values[i := c]))"

definition gate_expr ::
  "'f::field Polynomial \<Rightarrow> 'f Polynomial \<Rightarrow> 'f Polynomial \<Rightarrow> 'f CommonPreprocessedInput
    \<Rightarrow> 'f Polynomial option \<Rightarrow> py_error + 'f Polynomial" where
  \<comment> \<open>the left-hand side of the asserted equation of \<open>round_1\<close>, evaluated left to right\<close>
  "gate_expr A B C pk PI_attr =
    bind_err (poly_mul A (QL pk)) (\<lambda>t1.
    bind_err (poly_mul B (QR pk)) (\<lambda>t2.
    bind_err (poly_add t1 t2) (\<lambda>s1.
    bind_err (poly_mul A B) (\<lambda>ab.
    bind_err (poly_mul ab (QM pk)) (\<lambda>t3.
    bind_err (poly_add s1 t3) (\<lambda>s2.
    bind_err (poly_mul C (QO pk)) (\<lambda>t4.
    bind_err (poly_add s2 t4) (\<lambda>s3.
    bind_err (case PI_attr of None \<Rightarrow> Inl AttributeError | Some PI \<Rightarrow> Inr PI) (\<lambda>PI.
    bind_err (poly_add s3 PI) (\<lambda>s4.
    poly_add s4 (QC pk)))))))))))"

text \<open>
  \<open>round_1\<close> works on the prover object and on the caller's witness dictionary, which it
  updates in place; the state is the pair of both.
\<close>

definition round_1 ::
  "('f::field, 'g) Prover \<times> witness \<Rightarrow> (py_error + 'g Message1) \<times> (('f, 'g) Prover \<times> witness)" where
  "round_1 =
    bind_st (gets (\<lambda>(self, witness). (self_program self, self_setup self, self_group_order self)))
      (\<lambda>(program, setup_obj, group_order).
    bind_st (assign (\<lambda>(self, witness).
        (self, if witness None = None then witness(None \<mapsto> 0) else witness))) (\<lambda>_.
    bind_st (\<lambda>(self, witness).
        (fill_wires witness (wires program) 0
           (replicate group_order 0, replicate group_order 0, replicate group_order 0),
         (self, witness))) (\<lambda>(A_values, B_values, C_values).
    let A = \<lparr>vals = map of_int A_values, basis = LAGRANGE\<rparr>;
        B = \<lparr>vals = map of_int B_values, basis = LAGRANGE\<rparr>;
        C = \<lparr>vals = map of_int C_values, basis = LAGRANGE\<rparr>
    in
    bind_st (assign (\<lambda>(self, witness).
        (self\<lparr>self_A := Some A, self_B := Some B, self_C := Some C\<rparr>, witness))) (\<lambda>_.
    bind_st (lift_err (commit setup_obj A)) (\<lambda>a_1.
    bind_st (lift_err (commit setup_obj B)) (\<lambda>b_1.
    bind_st (lift_err (commit setup_obj C)) (\<lambda>c_1.
    bind_st (\<lambda>(self, witness).
        (gate_expr A B C (self_pk self) (self_PI self), (self, witness))) (\<lambda>lhs.
    bind_st (py_assert (lhs = \<lparr>vals = replicate group_order 0, basis = LAGRANGE\<rparr>)) (\<lambda>_.
    returns (Message1 a_1 b_1 c_1))))))))))"

subsection \<open>Round 2\<close>

definition Z_step ::
  "'f::field \<Rightarrow> 'f \<Rightarrow> 'f list \<Rightarrow> 'f list \<Rightarrow> 'f list \<Rightarrow> 'f CommonPreprocessedInput \<Rightarrow> 'f list
    \<Rightarrow> nat \<Rightarrow> 'f \<Rightarrow> 'f" where
  \<comment> \<open>the value appended in iteration \<open>i\<close> of the first loop, \<open>z\<close> being \<open>Z_values[-1]\<close>\<close>
  "Z_step beta gamma A B C pk roots i z =
     z * rlc beta gamma (A ! i) (roots ! i)
       * rlc beta gamma (B ! i) (2 * roots ! i)
       * rlc beta gamma (C ! i) (3 * roots ! i)
       / rlc beta gamma (A ! i) (vals (S1 pk) ! i)
       / rlc beta gamma (B ! i) (vals (S2 pk) ! i)
       / rlc beta gamma (C ! i) (vals (S3 pk) ! i)"

definition Z_loop ::
  "'f::field \<Rightarrow> 'f \<Rightarrow> 'f list \<Rightarrow> 'f list \<Rightarrow> 'f list \<Rightarrow> 'f CommonPreprocessedInput \<Rightarrow> 'f list
    \<Rightarrow> nat \<Rightarrow> 'f list" where
  "Z_loop beta gamma A B C pk roots group_order =
     foldl (\<lambda>Z_values i. Z_values @ [Z_step beta gamma A B C pk roots i (last Z_values)])
       [1] [0..<group_order]"

definition Z_check ::
  "'f::field \<Rightarrow> 'f \<Rightarrow> 'f list \<Rightarrow> 'f list \<Rightarrow> 'f list \<Rightarrow> 'f CommonPreprocessedInput \<Rightarrow> 'f list
    \<Rightarrow> nat \<Rightarrow> 'f list \<Rightarrow> nat \<Rightarrow> bool" where
  \<comment> \<open>the condition asserted in iteration \<open>i\<close> of the second loop\<close>
  "Z_check beta gamma A B C pk roots group_order Z_values i \<longleftrightarrow>
     (rlc beta gamma (A ! i) (roots ! i)
        * rlc beta gamma (B ! i) (2 * roots ! i)
        * rlc beta gamma (C ! i) (3 * roots ! i)) * Z_values ! i
     - (rlc beta gamma (A ! i) (vals (S1 pk) ! i)
        * rlc beta gamma (B ! i) (vals (S2 pk) ! i)
        * rlc beta gamma (C ! i) (vals (S3 pk) ! i)) * Z_values ! ((i + 1) mod group_order)
     = 0"

text \<open>
  The first loop reads, in its first iteration, \<open>self.A\<close>, \<open>self.A.values[0]\<close>, \<open>self.beta\<close>,
  \<open>self.gamma\<close>, \<open>self.B\<close>, \<open>self.B.values[0]\<close>, \<open>self.C\<close>, \<open>self.C.values[0]\<close> and then the
  permutation polynomials, in this order; a later iteration can only fail on an index.
  With \<open>group_order = 0\<close> the loop body never runs and nothing is read.
\<close>

definition round_2_reads ::
  "('f::field, 'g) Prover \<Rightarrow> py_error + ('f list \<times> 'f list \<times> 'f list \<times> 'f \<times> 'f)" where
  "round_2_reads self =
    (let n = self_group_order self; pk = self_pk self in
     if n = 0 then Inr ([], [], [], 0, 0) else
     case self_A self of None \<Rightarrow> Inl AttributeError | Some A \<Rightarrow>
     if vals A = [] then Inl IndexError else
     case self_beta self of None \<Rightarrow> Inl AttributeError | Some beta \<Rightarrow>
     case self_gamma self of None \<Rightarrow> Inl AttributeError | Some gamma \<Rightarrow>
     case self_B self of None \<Rightarrow> Inl AttributeError | Some B \<Rightarrow>
     if vals B = [] then Inl IndexError else
     case self_C self of None \<Rightarrow> Inl AttributeError | Some C \<Rightarrow>
     if length (vals A) < n \<or> length (vals B) < n \<or> length (vals C) < n
        \<or> length (vals (S1 pk)) < n \<or> length (vals (S2 pk)) < n \<or> length (vals (S3 pk)) < n
     then Inl IndexError
     else Inr (vals A, vals B, vals C, beta, gamma))"

definition round_2 ::
  "(nat \<Rightarrow> 'f::field) \<Rightarrow> ('f, 'g) Prover \<Rightarrow> (py_error + 'g Message2) \<times> ('f, 'g) Prover" where
  "round_2 rt =
    bind_st (gets (\<lambda>self. (self_group_order self, self_setup self, self_pk self)))
      (\<lambda>(group_order, setup_obj, pk).
    let roots = roots_of_unity rt group_order in
    bind_st (\<lambda>self. (round_2_reads self, self)) (\<lambda>(A, B, C, beta, gamma).
    let Z_values = Z_loop beta gamma A B C pk roots group_order in
    bind_st (py_assert (last Z_values = 1)) (\<lambda>_.
    let Z_values = butlast Z_values in
    bind_st (py_assert (\<forall>i \<in> set [0..<group_order].
        Z_check beta gamma A B C pk roots group_order Z_values i)) (\<lambda>_.
    let Z = \<lparr>vals = Z_values, basis = LAGRANGE\<rparr> in
    bind_st (lift_err (commit setup_obj Z)) (\<lambda>z_1.
    bind_st (assign (\<lambda>self. self\<lparr>self_Z := Some Z\<rparr>)) (\<lambda>_.
    returns (Message2 z_1)))))))"

subsection \<open>Round 3\<close>

definition QUOT_point ::
  "'f::field \<Rightarrow> 'f \<Rightarrow> 'f \<Rightarrow> 'f \<Rightarrow> 'f \<Rightarrow> 'f \<Rightarrow> 'f \<Rightarrow> 'f \<Rightarrow> 'f \<Rightarrow> 'f \<Rightarrow> 'f \<Rightarrow> 'f \<Rightarrow> 'f \<Rightarrow> 'f \<Rightarrow> 'f
    \<Rightarrow> 'f \<Rightarrow> 'f \<Rightarrow> 'f \<Rightarrow> 'f \<Rightarrow> 'f \<Rightarrow> 'f \<Rightarrow> 'f" where
  \<comment> \<open>one element of \<open>QUOT_values\<close>; the arguments after \<open>quarter_root\<close> are the entries
      at the index \<open>i\<close> of the lists of the same names\<close>
  "QUOT_point beta gamma alpha fft_cofactor quarter_root
      A_big QL_big B_big QR_big QM_big C_big QO_big PI_big QC_big Z_big Z_shifted_big
      S1_big S2_big S3_big L0_big ZH_big =
    ((A_big * QL_big + B_big * QR_big + A_big * B_big * QM_big + C_big * QO_big
        + PI_big + QC_big)
     + (rlc beta gamma A_big (fft_cofactor * quarter_root)
        * rlc beta gamma B_big (2 * fft_cofactor * quarter_root)
        * rlc beta gamma C_big (3 * fft_cofactor * quarter_root)) * alpha * Z_big
     - (rlc beta gamma A_big S1_big * rlc beta gamma B_big S2_big
        * rlc beta gamma C_big S3_big) * alpha * Z_shifted_big
     + ((Z_big - 1) * L0_big * alpha ^ 2)) / ZH_big"

definition last_n :: "nat \<Rightarrow> 'a list \<Rightarrow> 'a list" where
  \<comment> \<open>the slice \<open>xs[-n:]\<close>; with \<open>n = 0\<close> it is \<open>xs[0:]\<close>, the whole list\<close>
  "last_n n xs = (if n = 0 then xs else drop (length xs - n) xs)"

definition on_self ::
  "('p \<Rightarrow> ('e + 'a) \<times> 'p) \<Rightarrow> 'p \<times> 'w \<Rightarrow> ('e + 'a) \<times> ('p \<times> 'w)" where
  \<comment> \<open>a method of the prover that does not touch the witness\<close>
  "on_self m = (\<lambda>(self, witness). case m self of (r, self') \<Rightarrow> (r, (self', witness)))"

text \<open>
  \<open>round_3\<close> in three parts, each taking the local variables of the method it uses:
  \<open>round_3_QUOT\<close> runs from the assignment of \<open>quarter_roots\<close> to the construction of
  \<open>QUOT_big\<close>; \<open>round_3_T\<close> is the degree check and the split into \<open>T1\<close>, \<open>T2\<close>, \<open>T3\<close>;
  \<open>round_3_cross_check\<close> is the assertion at the cofactor.  \<open>round_3\<close> runs them in this
  order and then commits.
\<close>

definition round_3_QUOT ::
  "(nat \<Rightarrow> 'f::field) \<Rightarrow> nat \<Rightarrow> 'f CommonPreprocessedInput \<Rightarrow> 'f \<Rightarrow> 'f \<Rightarrow> ('f, 'g) Prover
    \<Rightarrow> (py_error + 'f Polynomial) \<times> ('f, 'g) Prover" where
  "round_3_QUOT rt group_order pk fft_cofactor alpha =
    (let quarter_roots = roots_of_unity rt (group_order * 4);
        fft_expand = (\<lambda>x. lift_err (to_coset_extended_lagrange rt x fft_cofactor))
    in
    bind_st (assign (\<lambda>self. self\<lparr>self_quarter_roots := Some quarter_roots\<rparr>)) (\<lambda>_.
    bind_st (bind_st (attr self_A) fft_expand) (\<lambda>A_big.
    bind_st (bind_st (attr self_B) fft_expand) (\<lambda>B_big.
    bind_st (bind_st (attr self_C) fft_expand) (\<lambda>C_big.
    bind_st (assign (\<lambda>self. self\<lparr>self_A_big := Some A_big, self_B_big := Some B_big,
                                   self_C_big := Some C_big\<rparr>)) (\<lambda>_.
    bind_st (bind_st (attr self_PI) fft_expand) (\<lambda>PI_big.
    bind_st (fft_expand (QL pk)) (\<lambda>QL_big.
    bind_st (fft_expand (QR pk)) (\<lambda>QR_big.
    bind_st (fft_expand (QM pk)) (\<lambda>QM_big.
    bind_st (fft_expand (QO pk)) (\<lambda>QO_big.
    bind_st (fft_expand (QC pk)) (\<lambda>QC_big.
    bind_st (bind_st (attr self_Z) fft_expand) (\<lambda>Z_big.
    bind_st (lift_err (shift Z_big 4)) (\<lambda>Z_shifted_big.
    bind_st (fft_expand (S1 pk)) (\<lambda>S1_big.
    bind_st (fft_expand (S2 pk)) (\<lambda>S2_big.
    bind_st (fft_expand (S3 pk)) (\<lambda>S3_big.
    bind_st (assign (\<lambda>self. self\<lparr>self_S1_big := Some S1_big, self_S2_big := Some S2_big,
                                   self_S3_big := Some S3_big\<rparr>)) (\<lambda>_.
    let ZH_values = map (\<lambda>w. (w * fft_cofactor) ^ group_order - 1) quarter_roots;
        ZH_big = \<lparr>vals = ZH_values, basis = LAGRANGE\<rparr>
    in
    bind_st (fft_expand \<lparr>vals = [1] @ replicate (group_order - 1) 0, basis = LAGRANGE\<rparr>)
      (\<lambda>L0_big.
    \<comment> \<open>the list comprehension: element \<open>0\<close> first indexes the lists of the gate term, then
        \<open>self.rlc\<close> reads \<open>self.beta\<close> and \<open>self.gamma\<close>; after that only an index can fail\<close>
    bind_st (guard (0 < group_order \<and>
        (\<exists>x \<in> set [A_big, QL_big, B_big, QR_big, QM_big, C_big, QO_big, PI_big, QC_big].
            vals x = [])) IndexError) (\<lambda>_.
    bind_st (if 0 < group_order then attr self_beta else returns 0) (\<lambda>beta.
    bind_st (if 0 < group_order then attr self_gamma else returns 0) (\<lambda>gamma.
    bind_st (guard
        (\<exists>x \<in> set [A_big, QL_big, B_big, QR_big, QM_big, C_big, QO_big, PI_big, QC_big,
                     Z_big, Z_shifted_big, S1_big, S2_big, S3_big, L0_big, ZH_big].
            length (vals x) < group_order * 4) IndexError) (\<lambda>_.
    let QUOT_values = map (\<lambda>i.
          QUOT_point beta gamma alpha fft_cofactor (quarter_roots ! i)
            (vals A_big ! i) (vals QL_big ! i) (vals B_big ! i) (vals QR_big ! i)
            (vals QM_big ! i) (vals C_big ! i) (vals QO_big ! i) (vals PI_big ! i)
            (vals QC_big ! i) (vals Z_big ! i) (vals Z_shifted_big ! i)
            (vals S1_big ! i) (vals S2_big ! i) (vals S3_big ! i)
            (vals L0_big ! i) (vals ZH_big ! i)) [0..<group_order * 4];
        QUOT_big = \<lparr>vals = QUOT_values, basis = LAGRANGE\<rparr>
    in returns QUOT_big)))))))))))))))))))))))"

definition round_3_T ::
  "(nat \<Rightarrow> 'f::field) \<Rightarrow> nat \<Rightarrow> 'f \<Rightarrow> 'f Polynomial \<Rightarrow> ('f, 'g) Prover
    \<Rightarrow> (py_error + 'f Polynomial \<times> 'f Polynomial \<times> 'f Polynomial) \<times> ('f, 'g) Prover" where
  "round_3_T rt group_order fft_cofactor QUOT_big =
    bind_st (lift_err (coset_extended_lagrange_to_coeffs rt QUOT_big fft_cofactor)) (\<lambda>coeffs.
    bind_st (py_assert (last_n group_order (vals coeffs) = replicate group_order 0)) (\<lambda>_.
    bind_st (lift_err (coset_extended_lagrange_to_coeffs rt QUOT_big fft_cofactor))
      (\<lambda>QUOT_coeffs.
    bind_st (lift_err (fft rt
        \<lparr>vals = take group_order (vals QUOT_coeffs), basis = MONOMIAL\<rparr>)) (\<lambda>T1.
    bind_st (lift_err (fft rt
        \<lparr>vals = take group_order (drop group_order (vals QUOT_coeffs)), basis = MONOMIAL\<rparr>))
      (\<lambda>T2.
    bind_st (lift_err (fft rt
        \<lparr>vals = take group_order (drop (group_order * 2) (vals QUOT_coeffs)),
         basis = MONOMIAL\<rparr>)) (\<lambda>T3.
    bind_st (assign (\<lambda>self. self\<lparr>self_T1 := Some T1, self_T2 := Some T2,
                                   self_T3 := Some T3\<rparr>)) (\<lambda>_.
    returns (T1, T2, T3))))))))"

definition cross_check_lhs ::
  "(nat \<Rightarrow> 'f::field) \<Rightarrow> nat \<Rightarrow> 'f \<Rightarrow> 'f Polynomial \<Rightarrow> 'f Polynomial \<Rightarrow> 'f Polynomial
    \<Rightarrow> py_error + 'f" where
  \<comment> \<open>the left-hand side of the second assertion of \<open>round_3\<close>\<close>
  "cross_check_lhs rt group_order fft_cofactor T1 T2 T3 =
    bind_err (barycentric_eval rt T1 fft_cofactor) (\<lambda>T1_at.
    bind_err (barycentric_eval rt T2 fft_cofactor) (\<lambda>T2_at.
    bind_err (barycentric_eval rt T3 fft_cofactor) (\<lambda>T3_at.
    Inr (T1_at + T2_at * fft_cofactor ^ group_order
         + T3_at * fft_cofactor ^ (group_order * 2)))))"

definition round_3_cross_check ::
  "(nat \<Rightarrow> 'f::field) \<Rightarrow> nat \<Rightarrow> 'f \<Rightarrow> 'f Polynomial \<Rightarrow> 'f Polynomial \<Rightarrow> 'f Polynomial
    \<Rightarrow> 'f Polynomial \<Rightarrow> ('f, 'g) Prover \<Rightarrow> (py_error + unit) \<times> ('f, 'g) Prover" where
  "round_3_cross_check rt group_order fft_cofactor QUOT_big T1 T2 T3 =
    bind_st (lift_err (cross_check_lhs rt group_order fft_cofactor T1 T2 T3)) (\<lambda>lhs.
    bind_st (lift_err (nth_err (vals QUOT_big) 0)) (\<lambda>QUOT_big_0.
    py_assert (lhs = QUOT_big_0)))"

definition round_3 ::
  "(nat \<Rightarrow> 'f::field) \<Rightarrow> ('f, 'g) Prover \<Rightarrow> (py_error + 'g Message3) \<times> ('f, 'g) Prover" where
  "round_3 rt =
    bind_st (gets (\<lambda>self. (self_group_order self, self_setup self))) (\<lambda>(group_order, setup_obj).
    bind_st (attr self_fft_cofactor) (\<lambda>fft_cofactor.
    bind_st (attr self_alpha) (\<lambda>alpha.
    bind_st (gets self_pk) (\<lambda>pk.
    bind_st (round_3_QUOT rt group_order pk fft_cofactor alpha) (\<lambda>QUOT_big.
    bind_st (round_3_T rt group_order fft_cofactor QUOT_big) (\<lambda>(T1, T2, T3).
    bind_st (round_3_cross_check rt group_order fft_cofactor QUOT_big T1 T2 T3) (\<lambda>_.
    bind_st (lift_err (commit setup_obj T1)) (\<lambda>t_lo_1.
    bind_st (lift_err (commit setup_obj T2)) (\<lambda>t_mid_1.
    bind_st (lift_err (commit setup_obj T3)) (\<lambda>t_hi_1.
    returns (Message3 t_lo_1 t_mid_1 t_hi_1)))))))))))"

subsection \<open>Round 4\<close>

definition round_4 ::
  "(nat \<Rightarrow> 'f::field) \<Rightarrow> ('f, 'g) Prover \<Rightarrow> (py_error + 'f Message4) \<times> ('f, 'g) Prover" where
  "round_4 rt =
    bind_st (attr self_zeta) (\<lambda>zeta.
    bind_st (gets self_group_order) (\<lambda>group_order.
    bind_st (lift_err (nth_err (roots_of_unity rt group_order) 1)) (\<lambda>omega.
    bind_st (gets self_pk) (\<lambda>pk.
    bind_st (bind_st (attr self_A) (\<lambda>A. lift_err (barycentric_eval rt A zeta))) (\<lambda>a_eval.
    bind_st (bind_st (attr self_B) (\<lambda>B. lift_err (barycentric_eval rt B zeta))) (\<lambda>b_eval.
    bind_st (bind_st (attr self_C) (\<lambda>C. lift_err (barycentric_eval rt C zeta))) (\<lambda>c_eval.
    bind_st (lift_err (barycentric_eval rt (S1 pk) zeta)) (\<lambda>s1_eval.
    bind_st (lift_err (barycentric_eval rt (S2 pk) zeta)) (\<lambda>s2_eval.
    bind_st (bind_st (attr self_Z) (\<lambda>Z. lift_err (barycentric_eval rt Z (zeta * omega))))
      (\<lambda>z_shifted_eval.
    bind_st (assign (\<lambda>self. self\<lparr>self_a_eval := Some a_eval, self_b_eval := Some b_eval,
        self_c_eval := Some c_eval, self_s1_eval := Some s1_eval,
        self_s2_eval := Some s2_eval, self_z_shifted_eval := Some z_shifted_eval\<rparr>)) (\<lambda>_.
    returns (Message4 a_eval b_eval c_eval s1_eval s2_eval z_shifted_eval))))))))))))"

subsection \<open>Round 5\<close>

definition R_point ::
  "'f::field \<Rightarrow> 'f \<Rightarrow> 'f \<Rightarrow> 'f \<Rightarrow> nat \<Rightarrow> 'f \<Rightarrow> 'f \<Rightarrow> 'f \<Rightarrow> 'f \<Rightarrow> 'f \<Rightarrow> 'f \<Rightarrow> 'f \<Rightarrow> 'f \<Rightarrow> 'f
    \<Rightarrow> 'f \<Rightarrow> 'f \<Rightarrow> 'f \<Rightarrow> 'f \<Rightarrow> 'f \<Rightarrow> 'f \<Rightarrow> 'f \<Rightarrow> 'f \<Rightarrow> 'f \<Rightarrow> 'f \<Rightarrow> 'f" where
  \<comment> \<open>one element of \<open>R_values\<close>; the arguments from \<open>QL_big\<close> on are the entries at the
      index \<open>i\<close> of the lists of the same names\<close>
  "R_point = (\<lambda>beta gamma alpha zeta group_order a_eval b_eval c_eval s1_eval s2_eval
      z_shifted_eval pi_eval l0_eval zh_eval
      QL_big QR_big QM_big QO_big QC_big Z_big S3_big T1_big T2_big T3_big.
    (a_eval * QL_big + b_eval * QR_big + a_eval * b_eval * QM_big + c_eval * QO_big
       + pi_eval + QC_big)
    + (a_eval + beta * zeta + gamma) * (b_eval + beta * 2 * zeta + gamma)
      * (c_eval + beta * 3 * zeta + gamma) * alpha * Z_big
    - (a_eval + beta * s1_eval + gamma) * (b_eval + beta * s2_eval + gamma)
      * (c_eval + beta * S3_big + gamma) * alpha * z_shifted_eval
    + (Z_big - 1) * l0_eval * alpha ^ 2
    - (T1_big + zeta ^ group_order * T2_big + zeta ^ (group_order * 2) * T3_big) * zh_eval)"

text \<open>
  \<open>round_5\<close> in three parts, each taking the local variables of the method it uses:
  \<open>round_5_R\<close> runs from \<open>pi_eval\<close> to the linearization polynomial \<open>R\<close> and returns
  \<open>R_big\<close>, \<open>Z_big\<close> and \<open>R\<close>; \<open>round_5_W_z\<close> and \<open>round_5_W_zw\<close> compute the monomial
  coefficients of the two opening polynomials.  \<open>round_5\<close> reads the local variables, runs
  the parts in this order and makes the three assertions and the two commitments between
  them.  This round assigns no attribute.
\<close>

definition round_5_R ::
  "(nat \<Rightarrow> 'f::field) \<Rightarrow> nat \<Rightarrow> 'f CommonPreprocessedInput \<Rightarrow> 'f \<Rightarrow> 'f \<Rightarrow> 'f \<Rightarrow> 'f \<Rightarrow> 'f
    \<Rightarrow> 'f \<Rightarrow> 'f \<Rightarrow> 'f \<Rightarrow> 'f \<Rightarrow> 'f \<Rightarrow> 'f \<Rightarrow> ('f, 'g) Prover
    \<Rightarrow> (py_error + 'f Polynomial \<times> 'f Polynomial \<times> 'f Polynomial) \<times> ('f, 'g) Prover" where
  "round_5_R = (\<lambda>rt group_order pk alpha beta gamma zeta fft_cofactor
      a_eval b_eval c_eval s1_eval s2_eval z_shifted_eval.
    bind_st (bind_st (attr self_PI) (\<lambda>PI. lift_err (barycentric_eval rt PI zeta))) (\<lambda>pi_eval.
    bind_st (lift_err (barycentric_eval rt
        \<lparr>vals = [1] @ replicate (group_order - 1) 0, basis = LAGRANGE\<rparr> zeta)) (\<lambda>l0_eval.
    let zh_eval = zeta ^ group_order - 1;
        to_coset = (\<lambda>x. lift_err (to_coset_extended_lagrange rt x fft_cofactor))
    in
    bind_st (bind_st (attr self_T1) to_coset) (\<lambda>T1_big.
    bind_st (bind_st (attr self_T2) to_coset) (\<lambda>T2_big.
    bind_st (bind_st (attr self_T3) to_coset) (\<lambda>T3_big.
    bind_st (to_coset (QL pk)) (\<lambda>QL_big.
    bind_st (to_coset (QR pk)) (\<lambda>QR_big.
    bind_st (to_coset (QM pk)) (\<lambda>QM_big.
    bind_st (to_coset (QO pk)) (\<lambda>QO_big.
    bind_st (to_coset (QC pk)) (\<lambda>QC_big.
    bind_st (bind_st (attr self_Z) to_coset) (\<lambda>Z_big.
    bind_st (to_coset (S3 pk)) (\<lambda>S3_big.
    bind_st (guard
        (\<exists>x \<in> set [QL_big, QR_big, QM_big, QO_big, QC_big, Z_big, S3_big,
                     T1_big, T2_big, T3_big].
            length (vals x) < 4 * group_order) IndexError) (\<lambda>_.
    let R_values = map (\<lambda>i.
          R_point beta gamma alpha zeta group_order a_eval b_eval c_eval s1_eval s2_eval
            z_shifted_eval pi_eval l0_eval zh_eval
            (vals QL_big ! i) (vals QR_big ! i) (vals QM_big ! i) (vals QO_big ! i)
            (vals QC_big ! i) (vals Z_big ! i) (vals S3_big ! i)
            (vals T1_big ! i) (vals T2_big ! i) (vals T3_big ! i)) [0..<4 * group_order];
        R_big = \<lparr>vals = R_values, basis = LAGRANGE\<rparr>
    in
    bind_st (lift_err (coset_extended_lagrange_to_coeffs rt R_big fft_cofactor)) (\<lambda>R_coeffs.
    bind_st (lift_err (fft rt \<lparr>vals = take group_order (vals R_coeffs), basis = MONOMIAL\<rparr>))
      (\<lambda>R.
    returns (R_big, Z_big, R)))))))))))))))))"

definition round_5_W_z ::
  "(nat \<Rightarrow> 'f::field) \<Rightarrow> nat \<Rightarrow> 'f \<Rightarrow> 'f \<Rightarrow> 'f \<Rightarrow> 'f \<Rightarrow> 'f \<Rightarrow> 'f \<Rightarrow> 'f \<Rightarrow> 'f
    \<Rightarrow> 'f Polynomial \<Rightarrow> ('f, 'g) Prover
    \<Rightarrow> (py_error + 'f list \<times> 'f list) \<times> ('f, 'g) Prover" where
  "round_5_W_z = (\<lambda>rt group_order fft_cofactor zeta v a_eval b_eval c_eval s1_eval s2_eval
      R_big.
    bind_st (attr self_A_big) (\<lambda>A_big.
    bind_st (attr self_B_big) (\<lambda>B_big.
    bind_st (attr self_C_big) (\<lambda>C_big.
    bind_st (attr self_S1_big) (\<lambda>S1_big.
    bind_st (attr self_S2_big) (\<lambda>S2_big.
    bind_st (attr self_quarter_roots) (\<lambda>quarter_roots.
    bind_st (guard
        (\<exists>x \<in> set [vals R_big, vals A_big, vals B_big, vals C_big, vals S1_big, vals S2_big,
                     quarter_roots].
            length x < group_order * 4) IndexError) (\<lambda>_.
    let W_z_values = map (\<lambda>i.
          (vals R_big ! i
           + v * (vals A_big ! i - a_eval)
           + v ^ 2 * (vals B_big ! i - b_eval)
           + v ^ 3 * (vals C_big ! i - c_eval)
           + v ^ 4 * (vals S1_big ! i - s1_eval)
           + v ^ 5 * (vals S2_big ! i - s2_eval))
          / (fft_cofactor * quarter_roots ! i - zeta)) [0..<group_order * 4];
        W_z_big = \<lparr>vals = W_z_values, basis = LAGRANGE\<rparr>
    in
    bind_st (lift_err (coset_extended_lagrange_to_coeffs rt W_z_big fft_cofactor))
      (\<lambda>W_z_coeffs_poly.
    returns (quarter_roots, vals W_z_coeffs_poly))))))))))"

definition round_5_W_zw ::
  "(nat \<Rightarrow> 'f::field) \<Rightarrow> nat \<Rightarrow> 'f \<Rightarrow> 'f \<Rightarrow> 'f \<Rightarrow> 'f \<Rightarrow> 'f list \<Rightarrow> 'f Polynomial
    \<Rightarrow> ('f, 'g) Prover \<Rightarrow> (py_error + 'f list) \<times> ('f, 'g) Prover" where
  "round_5_W_zw = (\<lambda>rt group_order fft_cofactor zeta omega z_shifted_eval quarter_roots Z_big.
    bind_st (guard (length (vals Z_big) < group_order * 4) IndexError) (\<lambda>_.
    let W_zw_values = map (\<lambda>i.
          (vals Z_big ! i - z_shifted_eval)
          / (fft_cofactor * quarter_roots ! i - zeta * omega)) [0..<group_order * 4];
        W_zw_big = \<lparr>vals = W_zw_values, basis = LAGRANGE\<rparr>
    in
    bind_st (lift_err (coset_extended_lagrange_to_coeffs rt W_zw_big fft_cofactor))
      (\<lambda>W_zw_coeffs_poly.
    returns (vals W_zw_coeffs_poly))))"

definition round_5 ::
  "(nat \<Rightarrow> 'f::field) \<Rightarrow> ('f, 'g) Prover \<Rightarrow> (py_error + 'g Message5) \<times> ('f, 'g) Prover" where
  "round_5 rt =
    bind_st (gets self_group_order) (\<lambda>group_order.
    bind_st (attr self_alpha) (\<lambda>alpha.
    bind_st (attr self_beta) (\<lambda>beta.
    bind_st (attr self_gamma) (\<lambda>gamma.
    bind_st (lift_err (nth_err (roots_of_unity rt group_order) 1)) (\<lambda>omega.
    bind_st (attr self_zeta) (\<lambda>zeta.
    bind_st (attr self_fft_cofactor) (\<lambda>fft_cofactor.
    bind_st (attr self_v) (\<lambda>v.
    bind_st (attr self_a_eval) (\<lambda>a_eval.
    bind_st (attr self_b_eval) (\<lambda>b_eval.
    bind_st (attr self_c_eval) (\<lambda>c_eval.
    bind_st (attr self_s1_eval) (\<lambda>s1_eval.
    bind_st (attr self_s2_eval) (\<lambda>s2_eval.
    bind_st (attr self_z_shifted_eval) (\<lambda>z_shifted_eval.
    bind_st (gets self_pk) (\<lambda>pk.
    bind_st (round_5_R rt group_order pk alpha beta gamma zeta fft_cofactor
        a_eval b_eval c_eval s1_eval s2_eval z_shifted_eval) (\<lambda>(R_big, Z_big, R).
    bind_st (lift_err (barycentric_eval rt R zeta)) (\<lambda>R_at.
    bind_st (py_assert (R_at = 0)) (\<lambda>_.
    bind_st (round_5_W_z rt group_order fft_cofactor zeta v a_eval b_eval c_eval s1_eval s2_eval
        R_big) (\<lambda>(quarter_roots, W_z_coeffs).
    bind_st (py_assert (drop group_order W_z_coeffs = replicate (group_order * 3) 0)) (\<lambda>_.
    bind_st (lift_err (fft rt \<lparr>vals = take group_order W_z_coeffs, basis = MONOMIAL\<rparr>))
      (\<lambda>W_z.
    bind_st (gets self_setup) (\<lambda>setup_obj.
    bind_st (lift_err (commit setup_obj W_z)) (\<lambda>W_z_1.
    bind_st (round_5_W_zw rt group_order fft_cofactor zeta omega z_shifted_eval quarter_roots
        Z_big) (\<lambda>W_zw_coeffs.
    bind_st (py_assert (drop group_order W_zw_coeffs = replicate (group_order * 3) 0)) (\<lambda>_.
    bind_st (lift_err (fft rt \<lparr>vals = take group_order W_zw_coeffs, basis = MONOMIAL\<rparr>))
      (\<lambda>W_zw.
    bind_st (gets self_setup) (\<lambda>setup_obj.
    bind_st (lift_err (commit setup_obj W_zw)) (\<lambda>W_zw_1.
    returns (Message5 W_z_1 W_zw_1)))))))))))))))))))))))))))))"

subsection \<open>\<open>prove\<close>\<close>

definition make_PI :: "nat \<Rightarrow> string option list \<Rightarrow> witness \<Rightarrow> py_error + 'f::field Polynomial" where
  \<comment> \<open>the public-input polynomial; \<open>witness[v]\<close> raises \<open>KeyError\<close> for a missing key, and
      a negative count of padding zeros gives no padding\<close>
  "make_PI group_order public_vars witness =
    (if \<exists>v \<in> set public_vars. witness v = None then Inl KeyError
     else Inr \<lparr>vals = map (\<lambda>v. of_int (- the (witness v))) public_vars
                      @ replicate (group_order - length public_vars) 0,
               basis = LAGRANGE\<rparr>)"

definition prove ::
  "(nat \<Rightarrow> 'f::field) \<Rightarrow> ('f, 'g, 't) Transcript \<Rightarrow> ('f, 'g) Prover \<times> witness
    \<Rightarrow> (py_error + ('f, 'g) Proof) \<times> (('f, 'g) Prover \<times> witness)" where
  "prove rt tr =
    (let transcript = new_transcript tr in
     bind_st (\<lambda>(self, witness).
        (make_PI (self_group_order self) (get_public_assignments (self_program self)) witness,
         (self, witness))) (\<lambda>PI.
     bind_st (assign (\<lambda>(self, witness). (self\<lparr>self_PI := Some PI\<rparr>, witness))) (\<lambda>_.
     bind_st round_1 (\<lambda>msg_1.
     case transcript_round_1 tr transcript msg_1 of ((beta, gamma), transcript) \<Rightarrow>
     bind_st (assign (\<lambda>(self, witness).
        (self\<lparr>self_beta := Some beta, self_gamma := Some gamma\<rparr>, witness))) (\<lambda>_.
     bind_st (on_self (round_2 rt)) (\<lambda>msg_2.
     case transcript_round_2 tr transcript msg_2 of ((alpha, fft_cofactor), transcript) \<Rightarrow>
     bind_st (assign (\<lambda>(self, witness).
        (self\<lparr>self_alpha := Some alpha, self_fft_cofactor := Some fft_cofactor\<rparr>, witness)))
       (\<lambda>_.
     bind_st (on_self (round_3 rt)) (\<lambda>msg_3.
     case transcript_round_3 tr transcript msg_3 of (zeta, transcript) \<Rightarrow>
     bind_st (assign (\<lambda>(self, witness). (self\<lparr>self_zeta := Some zeta\<rparr>, witness))) (\<lambda>_.
     bind_st (on_self (round_4 rt)) (\<lambda>msg_4.
     case transcript_round_4 tr transcript msg_4 of (v, transcript) \<Rightarrow>
     bind_st (assign (\<lambda>(self, witness). (self\<lparr>self_v := Some v\<rparr>, witness))) (\<lambda>_.
     bind_st (on_self (round_5 rt)) (\<lambda>msg_5.
     returns \<lparr>msg_1 = msg_1, msg_2 = msg_2, msg_3 = msg_3, msg_4 = msg_4, msg_5 = msg_5\<rparr>
     ))))))))))))"

section \<open>A small scalar field and a small circuit\<close>

text \<open>
  The integers modulo \<open>17\<close> as an instance of the scalar field, for running the prover on
  concrete inputs.  \<open>G k\<close> is the residue of \<open>k\<close>; the lemmas \<open>gf17_simps\<close> compute with
  residues.
\<close>

typedef gf17 = "{0..<17::int}"
  by auto

setup_lifting type_definition_gf17

instantiation gf17 :: field
begin
lift_definition zero_gf17 :: gf17 is 0 by simp
lift_definition one_gf17 :: gf17 is 1 by simp
lift_definition plus_gf17 :: "gf17 \<Rightarrow> gf17 \<Rightarrow> gf17" is "\<lambda>a b. (a + b) mod 17" by simp
lift_definition minus_gf17 :: "gf17 \<Rightarrow> gf17 \<Rightarrow> gf17" is "\<lambda>a b. (a - b) mod 17" by simp
lift_definition uminus_gf17 :: "gf17 \<Rightarrow> gf17" is "\<lambda>a. (- a) mod 17" by simp
lift_definition times_gf17 :: "gf17 \<Rightarrow> gf17 \<Rightarrow> gf17" is "\<lambda>a b. (a * b) mod 17" by simp
lift_definition inverse_gf17 :: "gf17 \<Rightarrow> gf17" is "\<lambda>a. (a ^ 15) mod 17" by simp
lift_definition divide_gf17 :: "gf17 \<Rightarrow> gf17 \<Rightarrow> gf17" is "\<lambda>a b. (a * (b ^ 15 mod 17)) mod 17" by simp
instance
proof
  fix a b c :: gf17
  show "a + b + c = a + (b + c)" by transfer (simp add: mod_simps algebra_simps)
  show "a + b = b + a" by transfer (simp add: algebra_simps)
  show "0 + a = a" by transfer simp
  show "- a + a = 0" by transfer (simp add: mod_simps)
  show "a - b = a + - b" by transfer (simp add: mod_simps)
  show "a * b * c = a * (b * c)" by transfer (simp add: mod_simps algebra_simps)
  show "a * b = b * a" by transfer (simp add: algebra_simps)
  show "1 * a = a" by transfer simp
  show "(a + b) * c = a * c + b * c" by transfer (simp add: mod_simps algebra_simps)
  show "(0::gf17) \<noteq> 1" by transfer simp
  show "a \<noteq> 0 \<Longrightarrow> inverse a * a = 1"
  proof transfer
    fix a :: int assume "a \<in> {0..<17}" "a \<noteq> 0"
    then have "a = 1 \<or> a = 2 \<or> a = 3 \<or> a = 4 \<or> a = 5 \<or> a = 6 \<or> a = 7 \<or> a = 8 \<or> a = 9
      \<or> a = 10 \<or> a = 11 \<or> a = 12 \<or> a = 13 \<or> a = 14 \<or> a = 15 \<or> a = 16"
      by (simp only: atLeastLessThan_iff) presburger
    then show "a ^ 15 mod 17 * a mod 17 = 1" by (elim disjE) simp_all
  qed
  show "a div b = a * inverse b" by transfer (simp add: mod_simps)
  show "inverse (0::gf17) = 0" by transfer simp
qed
end

lift_definition G :: "int \<Rightarrow> gf17" is "\<lambda>k. k mod 17" by simp

lemma G_add: "G a + G b = G ((a + b) mod 17)" by transfer (simp add: mod_simps)
lemma G_mult: "G a * G b = G ((a * b) mod 17)" by transfer (simp add: mod_simps)
lemma G_diff: "G a - G b = G ((a - b) mod 17)" by transfer (simp add: mod_simps)
lemma G_minus: "- G a = G ((- a) mod 17)" by transfer (simp add: mod_simps)
lemma G_inverse: "inverse (G a) = G (a ^ 15 mod 17)" by transfer (simp add: mod_simps power_mod)
lemma G_divide: "G a / G b = G ((a * b ^ 15) mod 17)" by transfer (simp add: mod_simps power_mod)
lemma G_eq: "(G a = G b) = (a mod 17 = b mod 17)" by transfer simp
lemma G_zero: "0 = G 0" by transfer simp
lemma G_one: "1 = G 1" by transfer simp
lemma G_power: "G a ^ n = G (a ^ n mod 17)"
  by (induction n) (simp_all add: G_one G_mult mod_simps mult.commute)
lemma G_of_nat: "of_nat n = G (int n mod 17)"
  by (induction n) (simp_all add: G_zero G_one G_add mod_simps add.commute)
lemma G_of_int: "of_int k = G (k mod 17)"
proof (cases k)
  case (nonneg n) then show ?thesis by (simp add: G_of_nat)
next
  case (neg n) then show ?thesis
    by (simp only: of_int_minus of_int_of_nat_eq G_of_nat G_minus mod_simps)
qed
lemma G_numeral: "numeral k = G (numeral k mod 17)"
  using G_of_int [of "numeral k"] by simp

lemmas gf17_simps = G_add G_mult G_diff G_minus G_inverse G_divide G_eq G_zero G_one G_power
  G_of_nat G_of_int G_numeral

text \<open>
  The multiplicative group of the field has order \<open>16\<close>; \<open>2\<close> generates the subgroup of
  order \<open>8\<close>, so a domain of size \<open>n = 2\<close> has the finer domain of size \<open>4n = 8\<close>, and \<open>3\<close>
  lies outside of it.  The example circuit has the two rows \<open>x + y = z\<close> and \<open>z + x = w\<close>;
  the copies of \<open>x\<close> and of \<open>z\<close> are linked by the permutation polynomials.  The example
  setup commits to a polynomial by returning it, and the example transcript answers with
  fixed challenges.
\<close>

definition ex_rt :: "nat \<Rightarrow> gf17" where
  "ex_rt order = G 2 ^ (8 div order)"

definition ex_poly :: "int list \<Rightarrow> gf17 Polynomial" where
  "ex_poly ks = \<lparr>vals = map G ks, basis = LAGRANGE\<rparr>"

definition ex_pk :: "gf17 CommonPreprocessedInput" where
  "ex_pk = \<lparr>QM = ex_poly [0, 0], QL = ex_poly [1, 1], QR = ex_poly [1, 1],
            QO = ex_poly [16, 16], QC = ex_poly [0, 0],
            S1 = ex_poly [15, 3], S2 = ex_poly [2, 1], S3 = ex_poly [16, 14]\<rparr>"

definition ex_program :: "gf17 Program" where
  "ex_program = \<lparr>program_group_order = 2,
     wires = [Wire (Some ''x'') (Some ''y'') (Some ''z''),
              Wire (Some ''z'') (Some ''x'') (Some ''w'')],
     get_public_assignments = [],
     common_preprocessed_input = ex_pk\<rparr>"

definition ex_witness :: witness where
  "ex_witness = [Some ''x'' \<mapsto> 3, Some ''y'' \<mapsto> 5, Some ''z'' \<mapsto> 8, Some ''w'' \<mapsto> 11]"

definition ex_setup :: "(gf17, gf17 Polynomial) Setup" where
  "ex_setup = \<lparr>commit = (\<lambda>p. Inr p)\<rparr>"

definition ex_transcript :: "(gf17, gf17 Polynomial, unit) Transcript" where
  "ex_transcript = \<lparr>new_transcript = (),
     transcript_round_1 = (\<lambda>t m. ((G 1, G 1), ())),
     transcript_round_2 = (\<lambda>t m. ((G 2, G 3), ())),
     transcript_round_3 = (\<lambda>t m. (G 2, ())),
     transcript_round_4 = (\<lambda>t m. (G 5, ()))\<rparr>"

definition ex_prover :: "(gf17, gf17 Polynomial) Prover" where
  "ex_prover = new_Prover ex_setup ex_program"

text \<open>The same circuit with a public input \<open>p\<close> declared.\<close>

definition ex_program_public :: "gf17 Program" where
  "ex_program_public = ex_program\<lparr>get_public_assignments := [Some ''p'']\<rparr>"

section \<open>Auxiliary predicates\<close>

text \<open>A computation on the pair of prover and witness that leaves the witness as it is.\<close>

definition keeps_witness :: "('p \<times> 'w \<Rightarrow> ('e + 'a) \<times> ('p \<times> 'w)) \<Rightarrow> bool" where
  "keeps_witness m \<longleftrightarrow> (\<forall>s. snd (snd (m s)) = snd s)"


text \<open>
  Well-formedness of the data the prover is given: the polynomials of the preprocessed
  input are \<open>LAGRANGE\<close> polynomials of the length of the domain; \<open>wires_bound\<close> says
  that every wire names variables the witness has.  \<open>wire_column\<close> is the column of witness values of the wires,
  padded with zeros to the length of the domain, and \<open>gate_at\<close> is the left-hand side of the
  gate identity in row \<open>i\<close>, that is, at the root of unity \<open>\<omega>^i\<close> of the \<open>LAGRANGE\<close> basis.
\<close>

definition lagrange_n :: "nat \<Rightarrow> 'f Polynomial \<Rightarrow> bool" where
  "lagrange_n n p \<longleftrightarrow> basis p = LAGRANGE \<and> length (vals p) = n"

definition wf_pk :: "nat \<Rightarrow> 'f CommonPreprocessedInput \<Rightarrow> bool" where
  "wf_pk n pk \<longleftrightarrow> lagrange_n n (QM pk) \<and> lagrange_n n (QL pk) \<and> lagrange_n n (QR pk)
     \<and> lagrange_n n (QO pk) \<and> lagrange_n n (QC pk)
     \<and> lagrange_n n (S1 pk) \<and> lagrange_n n (S2 pk) \<and> lagrange_n n (S3 pk)"

definition wires_bound :: "witness \<Rightarrow> Wire list \<Rightarrow> bool" where
  "wires_bound w ws \<longleftrightarrow>
     list_all (\<lambda>wire. w (wire_L wire) \<noteq> None \<and> w (wire_R wire) \<noteq> None \<and> w (wire_O wire) \<noteq> None) ws"

definition wire_column :: "witness \<Rightarrow> Wire list \<Rightarrow> (Wire \<Rightarrow> string option) \<Rightarrow> nat \<Rightarrow> int list" where
  "wire_column w ws sel n = map (\<lambda>wire. the (w (sel wire))) ws @ replicate (n - length ws) 0"

definition gate_at ::
  "'f::field list \<Rightarrow> 'f list \<Rightarrow> 'f list \<Rightarrow> 'f CommonPreprocessedInput \<Rightarrow> 'f list \<Rightarrow> nat \<Rightarrow> 'f" where
  "gate_at A B C pk PI i =
     A ! i * vals (QL pk) ! i + B ! i * vals (QR pk) ! i + A ! i * B ! i * vals (QM pk) ! i
     + C ! i * vals (QO pk) ! i + PI ! i + vals (QC pk) ! i"

definition lag :: "nat \<Rightarrow> (nat \<Rightarrow> 'f) \<Rightarrow> 'f Polynomial" where
  "lag n f = \<lparr>vals = map f [0..<n], basis = LAGRANGE\<rparr>"

text \<open>
  The witness after the first statement of \<open>round_1\<close>, the wire polynomials built from it,
  and the gate identity of row \<open>i\<close> for them.
\<close>

definition with_None :: "witness \<Rightarrow> witness" where
  "with_None w = (if w None = None then w(None \<mapsto> 0) else w)"

definition wire_poly ::
  "witness \<Rightarrow> Wire list \<Rightarrow> (Wire \<Rightarrow> string option) \<Rightarrow> nat \<Rightarrow> 'f::field Polynomial" where
  "wire_poly w ws sel n = \<lparr>vals = map of_int (wire_column (with_None w) ws sel n), basis = LAGRANGE\<rparr>"

definition gate_holds_at :: "('f::field, 'g) Prover \<Rightarrow> witness \<Rightarrow> 'f Polynomial \<Rightarrow> nat \<Rightarrow> bool" where
  "gate_holds_at self w PI i \<longleftrightarrow>
     gate_at (vals (wire_poly w (wires (self_program self)) wire_L (self_group_order self) :: 'f Polynomial))
             (vals (wire_poly w (wires (self_program self)) wire_R (self_group_order self) :: 'f Polynomial))
             (vals (wire_poly w (wires (self_program self)) wire_O (self_group_order self) :: 'f Polynomial))
             (self_pk self) (vals PI) i = 0"

text \<open>
  The three commitments of \<open>round_1\<close>, made in the order \<open>A\<close>, \<open>B\<close>, \<open>C\<close>: the message
  \<open>(commit(A), commit(B), commit(C))\<close>, or the first exception raised by \<open>setup.commit\<close>.
\<close>

definition round_1_commits ::
  "('f, 'g) Setup \<Rightarrow> 'f Polynomial \<Rightarrow> 'f Polynomial \<Rightarrow> 'f Polynomial \<Rightarrow> py_error + 'g Message1" where
  "round_1_commits setup_arg A B C =
     bind_err (commit setup_arg A) (\<lambda>a. bind_err (commit setup_arg B) (\<lambda>b.
     bind_err (commit setup_arg C) (\<lambda>c. Inr (Message1 a b c))))"

definition wire_commits :: "('f::field, 'g) Prover \<Rightarrow> witness \<Rightarrow> py_error + 'g Message1" where
  "wire_commits self w =
     round_1_commits (self_setup self)
       (wire_poly w (wires (self_program self)) wire_L (self_group_order self))
       (wire_poly w (wires (self_program self)) wire_R (self_group_order self))
       (wire_poly w (wires (self_program self)) wire_O (self_group_order self))"

text \<open>
  A circuit whose second row \<open>z = w\<close> names a variable \<open>u\<close> on its right wire, with the
  selector \<open>QR\<close> zero in that row, and a witness without \<open>u\<close>.
\<close>

definition ex_pk_u :: "gf17 CommonPreprocessedInput" where
  "ex_pk_u = \<lparr>QM = ex_poly [0, 0], QL = ex_poly [1, 1], QR = ex_poly [1, 0],
              QO = ex_poly [16, 16], QC = ex_poly [0, 0],
              S1 = ex_poly [15, 3], S2 = ex_poly [2, 1], S3 = ex_poly [16, 14]\<rparr>"

definition ex_program_u :: "gf17 Program" where
  "ex_program_u = \<lparr>program_group_order = 2,
     wires = [Wire (Some ''x'') (Some ''y'') (Some ''z''),
              Wire (Some ''z'') (Some ''u'') (Some ''w'')],
     get_public_assignments = [],
     common_preprocessed_input = ex_pk_u\<rparr>"

definition ex_witness_u :: witness where
  "ex_witness_u = [Some ''x'' \<mapsto> 3, Some ''y'' \<mapsto> 5, Some ''z'' \<mapsto> 8, Some ''w'' \<mapsto> 8]"

definition ex_prover_u :: "(gf17, gf17 Polynomial) Prover" where
  "ex_prover_u = (new_Prover ex_setup ex_program_u)\<lparr>self_PI := Some (ex_poly [0, 0])\<rparr>"


text \<open>
  The accumulator of the spec: \<open>Z\<^sub>0 = 1\<close> and \<open>Z\<^sub>i\<^sub>+\<^sub>1\<close> is \<open>Z\<^sub>i\<close> times the quotient of the
  two products of random linear combinations of row \<open>i\<close>; \<open>perm_num\<close> and \<open>perm_den\<close> are
  the two products, \<open>omega\<close> is the generator of the domain.
\<close>

definition perm_num ::
  "'f::field \<Rightarrow> 'f \<Rightarrow> 'f list \<Rightarrow> 'f list \<Rightarrow> 'f list \<Rightarrow> 'f \<Rightarrow> nat \<Rightarrow> 'f" where
  "perm_num beta gamma A B C omega i =
     rlc beta gamma (A ! i) (omega ^ i) * rlc beta gamma (B ! i) (2 * omega ^ i)
     * rlc beta gamma (C ! i) (3 * omega ^ i)"

definition perm_den ::
  "'f::field \<Rightarrow> 'f \<Rightarrow> 'f list \<Rightarrow> 'f list \<Rightarrow> 'f list \<Rightarrow> 'f CommonPreprocessedInput \<Rightarrow> nat \<Rightarrow> 'f" where
  "perm_den beta gamma A B C pk i =
     rlc beta gamma (A ! i) (vals (S1 pk) ! i) * rlc beta gamma (B ! i) (vals (S2 pk) ! i)
     * rlc beta gamma (C ! i) (vals (S3 pk) ! i)"

fun Z_acc ::
  "'f::field \<Rightarrow> 'f \<Rightarrow> 'f list \<Rightarrow> 'f list \<Rightarrow> 'f list \<Rightarrow> 'f CommonPreprocessedInput \<Rightarrow> 'f
    \<Rightarrow> nat \<Rightarrow> 'f" where
  "Z_acc beta gamma A B C pk omega 0 = 1"
| "Z_acc beta gamma A B C pk omega (Suc i) =
     Z_acc beta gamma A B C pk omega i * perm_num beta gamma A B C omega i
       / perm_den beta gamma A B C pk i"

definition wrap_identity ::
  "'f::field \<Rightarrow> 'f \<Rightarrow> 'f list \<Rightarrow> 'f list \<Rightarrow> 'f list \<Rightarrow> 'f CommonPreprocessedInput \<Rightarrow> 'f
    \<Rightarrow> nat \<Rightarrow> nat \<Rightarrow> bool" where
  "wrap_identity beta gamma A B C pk omega n i \<longleftrightarrow>
     perm_num beta gamma A B C omega i * Z_acc beta gamma A B C pk omega i
     - perm_den beta gamma A B C pk i * Z_acc beta gamma A B C pk omega ((i + 1) mod n) = 0"

definition accumulator ::
  "'f::field \<Rightarrow> 'f \<Rightarrow> 'f list \<Rightarrow> 'f list \<Rightarrow> 'f list \<Rightarrow> 'f CommonPreprocessedInput \<Rightarrow> 'f
    \<Rightarrow> nat \<Rightarrow> 'f Polynomial" where
  "accumulator beta gamma A B C pk omega n =
     \<lparr>vals = map (Z_acc beta gamma A B C pk omega) [0..<n], basis = LAGRANGE\<rparr>"

text \<open>
  The example prover when each of the rounds 2 to 5 starts (the challenges just received
  included), after \<open>prove\<close> has returned, and the proof returned.
\<close>

definition ex_prover_2 :: "(gf17, gf17 Polynomial) Prover" where
  "ex_prover_2 = ex_prover\<lparr>self_PI := Some (ex_poly [0, 0]),
     self_A := Some (ex_poly [3, 8]), self_B := Some (ex_poly [5, 3]),
     self_C := Some (ex_poly [8, 11]), self_beta := Some (G 1), self_gamma := Some (G 1)\<rparr>"

definition ex_prover_3 :: "(gf17, gf17 Polynomial) Prover" where
  "ex_prover_3 = ex_prover_2\<lparr>self_Z := Some (ex_poly [1, 8]),
     self_alpha := Some (G 2), self_fft_cofactor := Some (G 3)\<rparr>"

definition ex_prover_4 :: "(gf17, gf17 Polynomial) Prover" where
  "ex_prover_4 = ex_prover_3\<lparr>
     self_quarter_roots := Some (map G [1, 2, 4, 8, 16, 15, 13, 9]),
     self_A_big := Some (ex_poly [15, 16, 1, 5, 13, 12, 10, 6]),
     self_B_big := Some (ex_poly [7, 10, 16, 11, 1, 15, 9, 14]),
     self_C_big := Some (ex_poly [5, 9, 0, 16, 14, 10, 2, 3]),
     self_S1_big := Some (ex_poly [10, 11, 13, 0, 8, 7, 5, 1]),
     self_S2_big := Some (ex_poly [3, 13, 16, 5, 0, 7, 4, 15]),
     self_S3_big := Some (ex_poly [1, 4, 10, 5, 12, 9, 3, 8]),
     self_T1 := Some (ex_poly [15, 8]), self_T2 := Some (ex_poly [4, 4]),
     self_T3 := Some (ex_poly [0, 0]), self_zeta := Some (G 2)\<rparr>"

definition ex_prover_5 :: "(gf17, gf17 Polynomial) Prover" where
  "ex_prover_5 = ex_prover_4\<lparr>self_a_eval := Some (G 9), self_b_eval := Some (G 6),
     self_c_eval := Some (G 15), self_s1_eval := Some (G 4), self_s2_eval := Some (G 11),
     self_z_shifted_eval := Some (G 3), self_v := Some (G 5)\<rparr>"

definition ex_proof :: "(gf17, gf17 Polynomial) Proof" where
  "ex_proof = \<lparr>
     msg_1 = Message1 (ex_poly [3, 8]) (ex_poly [5, 3]) (ex_poly [8, 11]),
     msg_2 = Message2 (ex_poly [1, 8]),
     msg_3 = Message3 (ex_poly [15, 8]) (ex_poly [4, 4]) (ex_poly [0, 0]),
     msg_4 = Message4 (G 9) (G 6) (G 15) (G 4) (G 11) (G 3),
     msg_5 = Message5 (ex_poly [11, 11]) (ex_poly [5, 5])\<rparr>"

section \<open>Properties\<close>

subsection \<open>The flattened proof\<close>

text \<open>
  Claim C7.  \<open>Proof.flatten\<close> returns a mapping with exactly the fifteen fields
  \<open>a_1, b_1, c_1, z_1, t_lo_1, t_mid_1, t_hi_1, a_eval, b_eval, c_eval, s1_eval, s2_eval,
  z_shifted_eval, W_z_1, W_zw_1\<close>, in that order, no more and no fewer (the keys are
  pairwise distinct and there are fifteen of them), each bound to the corresponding
  component of the five round messages.
\<close>

theorem flatten_fifteen_fields:
  "flatten p =
     [(''a_1'', Point (a_1 (msg_1 p))), (''b_1'', Point (b_1 (msg_1 p))),
      (''c_1'', Point (c_1 (msg_1 p))), (''z_1'', Point (z_1 (msg_2 p))),
      (''t_lo_1'', Point (t_lo_1 (msg_3 p))), (''t_mid_1'', Point (t_mid_1 (msg_3 p))),
      (''t_hi_1'', Point (t_hi_1 (msg_3 p))), (''a_eval'', Scal (a_eval (msg_4 p))),
      (''b_eval'', Scal (b_eval (msg_4 p))), (''c_eval'', Scal (c_eval (msg_4 p))),
      (''s1_eval'', Scal (s1_eval (msg_4 p))), (''s2_eval'', Scal (s2_eval (msg_4 p))),
      (''z_shifted_eval'', Scal (z_shifted_eval (msg_4 p))),
      (''W_z_1'', Point (W_z_1 (msg_5 p))), (''W_zw_1'', Point (W_zw_1 (msg_5 p)))]
   \<and> map fst (flatten p) =
     [''a_1'', ''b_1'', ''c_1'', ''z_1'', ''t_lo_1'', ''t_mid_1'', ''t_hi_1'', ''a_eval'',
      ''b_eval'', ''c_eval'', ''s1_eval'', ''s2_eval'', ''z_shifted_eval'', ''W_z_1'',
      ''W_zw_1'']
   \<and> distinct (map fst (flatten p))
   \<and> length (flatten p) = 15"
  by (simp add: flatten_def)

subsection \<open>The caller's witness\<close>

lemma keeps_witness_bind:
  "keeps_witness m \<Longrightarrow> (\<And>x. keeps_witness (f x)) \<Longrightarrow> keeps_witness (bind_st m f)"
  by (auto simp: keeps_witness_def bind_st_def split: prod.splits sum.splits) (metis snd_conv)+

lemma keeps_witness_on_self: "keeps_witness (on_self m)"
  by (auto simp: keeps_witness_def on_self_def split: prod.splits)

lemma keeps_witness_returns: "keeps_witness (returns x)"
  by (simp add: keeps_witness_def returns_def)

lemma keeps_witness_assign: "keeps_witness (assign (\<lambda>(self, witness). (g self, witness)))"
  by (auto simp: keeps_witness_def assign_def split: prod.splits)

lemma bind_st_witness:
  "(\<And>x. keeps_witness (f x)) \<Longrightarrow> snd (snd (bind_st m f s)) = snd (snd (m s))"
  by (auto simp: keeps_witness_def bind_st_def split: prod.splits sum.splits)

lemma round_1_witness:
  "snd (snd (round_1 (self, w))) = (if w None = None then w(None \<mapsto> 0) else w)"
  by (auto simp: round_1_def bind_st_def gets_def assign_def py_assert_def returns_def Let_def
      lift_err_def split: sum.splits prod.splits)

lemma keeps_witness_case_prod:
  "(\<And>a b. keeps_witness (f a b)) \<Longrightarrow> keeps_witness (case p of (a, b) \<Rightarrow> f a b)"
  by (cases p) simp

lemma witness_after_round_1:
  fixes g :: "'f::field Polynomial \<Rightarrow> ('f, 'g) Prover \<Rightarrow> ('f, 'g) Prover"
  assumes "\<And>x. keeps_witness (k x)"
  shows "snd (snd (bind_st (\<lambda>(self, witness). (make_PI (n self) (pv self) witness, (self, witness)))
            (\<lambda>PI. bind_st (assign (\<lambda>(self, witness). (g PI self, witness)))
               (\<lambda>_. bind_st round_1 k)) (self, w))) =
     (if \<exists>v \<in> set (pv self). w v = None then w
      else if w None = None then w(None \<mapsto> 0) else w)"
proof (cases "\<exists>v \<in> set (pv self). w v = None")
  case True
  then show ?thesis by (simp add: bind_st_def make_PI_def)
next
  case False
  then obtain PI :: "'f Polynomial" where PI: "make_PI (n self) (pv self) w = Inr PI"
    by (simp add: make_PI_def)
  have "snd (snd (bind_st round_1 k (g PI self, w))) = snd (snd (round_1 (g PI self, w)))"
    by (rule bind_st_witness) (rule assms)
  with False PI show ?thesis
    by (auto simp add: bind_st_def [of "\<lambda>(self, witness). (make_PI (n self) (pv self) witness, (self, witness))"]
        bind_st_def [of "assign _"] assign_def round_1_witness)
qed

lemma prove_witness:
  "snd (snd (prove rt tr (self, w))) =
     (if \<exists>v \<in> set (get_public_assignments (self_program self)). w v = None then w
      else if w None = None then w(None \<mapsto> 0) else w)"
  unfolding prove_def Let_def
  by (rule witness_after_round_1)
    (intro keeps_witness_case_prod keeps_witness_bind keeps_witness_on_self
      keeps_witness_returns keeps_witness_assign)

lemma prove_KeyError:
  "\<exists>v \<in> set (get_public_assignments (self_program self)). w v = None \<Longrightarrow>
   prove rt tr (self, w) = (Inl KeyError, (self, w))"
  by (simp add: prove_def bind_st_def make_PI_def)

text \<open>
  Claim C10, as amended.  \<open>prove\<close> first reads \<open>witness[v]\<close> for every public variable;
  when one of them is missing it raises \<open>KeyError\<close> before \<open>round_1\<close> is reached, and the
  caller's witness and the prover are left as they were.  Otherwise the witness the caller
  holds afterwards, whether \<open>prove\<close> returned or raised later, is the one passed in with the
  entry \<open>None \<mapsto> 0\<close> added when the key \<open>None\<close> was absent, and unchanged when it was
  present; no other entry is added, removed or changed.
\<close>

theorem prove_witness_frame:
  "snd (snd (prove rt tr (self, w))) =
     (if \<exists>v \<in> set (get_public_assignments (self_program self)). w v = None then w
      else if w None = None then w(None \<mapsto> 0) else w)
   \<and> ((\<exists>v \<in> set (get_public_assignments (self_program self)). w v = None) \<longrightarrow>
        prove rt tr (self, w) = (Inl KeyError, (self, w)))"
  using prove_witness [of rt tr self w] prove_KeyError [of self w rt tr] by blast

theorem prove_witness_frame_witness:
  "(\<exists>v \<in> set (get_public_assignments (self_program (new_Prover ex_setup ex_program_public))).
      ex_witness v = None)
   \<and> prove ex_rt ex_transcript (new_Prover ex_setup ex_program_public, ex_witness)
       = (Inl KeyError, (new_Prover ex_setup ex_program_public, ex_witness))
   \<and> \<not> (\<exists>v \<in> set (get_public_assignments (self_program ex_prover)). ex_witness v = None)
   \<and> ex_witness None = None
   \<and> snd (snd (prove ex_rt ex_transcript (ex_prover, ex_witness))) = ex_witness(None \<mapsto> 0)
   \<and> snd (snd (prove ex_rt ex_transcript (ex_prover, ex_witness(None \<mapsto> 7))))
       = ex_witness(None \<mapsto> 7)"
proof -
  have p: "\<exists>v \<in> set (get_public_assignments (self_program (new_Prover ex_setup ex_program_public))).
      ex_witness v = None"
    by (simp add: new_Prover_def ex_program_public_def ex_program_def ex_witness_def)
  have q: "get_public_assignments (self_program ex_prover) = []"
    by (simp add: ex_prover_def new_Prover_def ex_program_def)
  have n: "ex_witness None = None" by (simp add: ex_witness_def)
  from prove_witness_frame [of ex_rt ex_transcript "new_Prover ex_setup ex_program_public" ex_witness] p
  have a: "prove ex_rt ex_transcript (new_Prover ex_setup ex_program_public, ex_witness)
       = (Inl KeyError, (new_Prover ex_setup ex_program_public, ex_witness))"
    by simp
  from prove_witness_frame [of ex_rt ex_transcript ex_prover ex_witness] q n
  have b: "snd (snd (prove ex_rt ex_transcript (ex_prover, ex_witness))) = ex_witness(None \<mapsto> 0)"
    by simp
  from prove_witness_frame [of ex_rt ex_transcript ex_prover "ex_witness(None \<mapsto> 7)"] q
  have c: "snd (snd (prove ex_rt ex_transcript (ex_prover, ex_witness(None \<mapsto> 7))))
       = ex_witness(None \<mapsto> 7)"
    by simp
  from p q n a b c show ?thesis by simp
qed

text \<open>
  Claim C10, as stated, fails: for the circuit with the public input \<open>p\<close> and the empty
  witness, which does not contain the key \<open>None\<close>, \<open>prove\<close> raises \<open>KeyError\<close> and the
  witness is still empty afterwards: no entry \<open>None \<mapsto> 0\<close> was inserted.
\<close>

theorem prove_witness_counterexample:
  "Map.empty None = (None :: int option)
   \<and> fst (prove ex_rt ex_transcript (new_Prover ex_setup ex_program_public, Map.empty))
       = Inl KeyError
   \<and> snd (snd (prove ex_rt ex_transcript (new_Prover ex_setup ex_program_public, Map.empty)))
       None = None"
  by (simp add: prove_def bind_st_def make_PI_def new_Prover_def ex_program_public_def
      ex_program_def)

subsection \<open>Round 1: the gate identity\<close>

lemma fill_wires_bound:
  "wires_bound w ws \<Longrightarrow> i + length ws \<le> length av \<Longrightarrow> length bv = length av
    \<Longrightarrow> length cv = length av \<Longrightarrow>
   fill_wires w ws i (av, bv, cv) =
     Inr (take i av @ map (\<lambda>wire. the (w (wire_L wire))) ws @ drop (i + length ws) av,
          take i bv @ map (\<lambda>wire. the (w (wire_R wire))) ws @ drop (i + length ws) bv,
          take i cv @ map (\<lambda>wire. the (w (wire_O wire))) ws @ drop (i + length ws) cv)"
proof (induction ws arbitrary: i av bv cv)
  case Nil
  then show ?case by simp
next
  case (Cons wire ws)
  from Cons.prems have b: "wires_bound w ws"
    and v: "w (wire_L wire) \<noteq> None" "w (wire_R wire) \<noteq> None" "w (wire_O wire) \<noteq> None"
    by (simp_all add: wires_bound_def)
  from Cons.prems have i: "i < length av" "i < length bv" "i < length cv" by simp_all
  have upd: "take (Suc i) (xs[i := x]) = take i xs @ [x]"
    if "i < length xs" for xs :: "int list" and x
    using that by (simp add: take_Suc_conv_app_nth)
  from v obtain a b c where abc: "w (wire_L wire) = Some a" "w (wire_R wire) = Some b"
    "w (wire_O wire) = Some c" by auto
  have "fill_wires w (wire # ws) i (av, bv, cv)
      = fill_wires w ws (Suc i) (av[i := a], bv[i := b], cv[i := c])"
    using i abc by simp
  also have "\<dots> = Inr (take (Suc i) (av[i := a]) @ map (\<lambda>wire. the (w (wire_L wire))) ws @ drop (Suc i + length ws) (av[i := a]),
          take (Suc i) (bv[i := b]) @ map (\<lambda>wire. the (w (wire_R wire))) ws @ drop (Suc i + length ws) (bv[i := b]),
          take (Suc i) (cv[i := c]) @ map (\<lambda>wire. the (w (wire_O wire))) ws @ drop (Suc i + length ws) (cv[i := c]))"
    using Cons.prems b by (intro Cons.IH) simp_all
  finally show ?case using i abc by (simp add: upd)
qed

lemma fill_wires_columns:
  assumes "wires_bound w ws" "length ws \<le> n"
  shows "fill_wires w ws 0 (replicate n 0, replicate n 0, replicate n 0) =
     Inr (wire_column w ws wire_L n, wire_column w ws wire_R n, wire_column w ws wire_O n)"
  using fill_wires_bound [OF assms(1), of 0 "replicate n 0" "replicate n 0" "replicate n 0"] assms(2)
  by (simp add: wire_column_def)

lemma length_wire_column: "length ws \<le> n \<Longrightarrow> length (wire_column w ws sel n) = n"
  by (simp add: wire_column_def)

lemma map2_nth:
  "length xs = n \<Longrightarrow> length ys = n \<Longrightarrow> map2 f xs ys = map (\<lambda>i. f (xs ! i) (ys ! i)) [0..<n]"
  by (rule nth_equalityI) simp_all

lemma poly_add_Inr:
  "length (vals p) = n \<Longrightarrow> length (vals q) = n \<Longrightarrow> basis p = b \<Longrightarrow> basis q = b \<Longrightarrow>
   poly_add p q = Inr \<lparr>vals = map (\<lambda>i. vals p ! i + vals q ! i) [0..<n], basis = b\<rparr>"
  unfolding poly_add_def by (simp only: map2_nth [of _ n]) simp

lemma poly_mul_Inr:
  "length (vals p) = n \<Longrightarrow> length (vals q) = n \<Longrightarrow> basis p = b \<Longrightarrow> basis q = b \<Longrightarrow>
   poly_mul p q = Inr \<lparr>vals = map (\<lambda>i. vals p ! i * vals q ! i) [0..<n], basis = b\<rparr>"
  unfolding poly_mul_def by (simp only: map2_nth [of _ n]) simp

lemma lagrange_n_lag: "lagrange_n n p \<Longrightarrow> p = lag n (\<lambda>i. vals p ! i)"
  by (cases p) (auto simp: lagrange_n_def lag_def map_nth)

lemma poly_mul_lag: "poly_mul (lag n f) (lag n g) = Inr (lag n (\<lambda>i. f i * g i))"
  unfolding lag_def by (subst poly_mul_Inr [of _ n _ LAGRANGE]) simp_all

lemma poly_add_lag: "poly_add (lag n f) (lag n g) = Inr (lag n (\<lambda>i. f i + g i))"
  unfolding lag_def by (subst poly_add_Inr [of _ n _ LAGRANGE]) simp_all

lemma bind_err_Inr: "bind_err (Inr x) f = f x"
  by (simp add: bind_err_def)

lemma gate_expr_lag:
  "gate_expr (lag n a) (lag n b) (lag n c)
     \<lparr>QM = lag n qm, QL = lag n ql, QR = lag n qr, QO = lag n qo, QC = lag n qc,
      S1 = s1, S2 = s2, S3 = s3\<rparr> (Some (lag n pi)) =
   Inr (lag n (\<lambda>i. a i * ql i + b i * qr i + a i * b i * qm i + c i * qo i + pi i + qc i))"
  unfolding gate_expr_def
  by (simp only: poly_mul_lag poly_add_lag bind_err_Inr CommonPreprocessedInput.simps
      option.case)

lemma gate_expr_Inr:
  assumes "lagrange_n n A" "lagrange_n n B" "lagrange_n n C" "wf_pk n pk" "lagrange_n n PI"
  shows "gate_expr A B C pk (Some PI) =
     Inr \<lparr>vals = map (gate_at (vals A) (vals B) (vals C) pk (vals PI)) [0..<n], basis = LAGRANGE\<rparr>"
proof -
  have pk: "pk = \<lparr>QM = lag n (\<lambda>i. vals (QM pk) ! i), QL = lag n (\<lambda>i. vals (QL pk) ! i),
      QR = lag n (\<lambda>i. vals (QR pk) ! i), QO = lag n (\<lambda>i. vals (QO pk) ! i),
      QC = lag n (\<lambda>i. vals (QC pk) ! i), S1 = S1 pk, S2 = S2 pk, S3 = S3 pk\<rparr>"
    using assms(4) by (cases pk) (simp add: wf_pk_def flip: lagrange_n_lag)
  have "gate_expr A B C pk (Some PI) =
      gate_expr (lag n (\<lambda>i. vals A ! i)) (lag n (\<lambda>i. vals B ! i)) (lag n (\<lambda>i. vals C ! i))
       \<lparr>QM = lag n (\<lambda>i. vals (QM pk) ! i), QL = lag n (\<lambda>i. vals (QL pk) ! i),
      QR = lag n (\<lambda>i. vals (QR pk) ! i), QO = lag n (\<lambda>i. vals (QO pk) ! i),
      QC = lag n (\<lambda>i. vals (QC pk) ! i), S1 = S1 pk, S2 = S2 pk, S3 = S3 pk\<rparr>
       (Some (lag n (\<lambda>i. vals PI ! i)))"
    using assms(1,2,3,5) pk by (simp flip: lagrange_n_lag)
  also have "\<dots> = Inr (lag n (gate_at (vals A) (vals B) (vals C) pk (vals PI)))"
    unfolding gate_expr_lag gate_at_def ..
  finally show ?thesis by (simp only: lag_def)
qed

lemma zero_poly_iff:
  "(map f [0..<n] = replicate n 0) \<longleftrightarrow> (\<forall>i<n. f i = 0)"
  by (auto simp: list_eq_iff_nth_eq)

lemma fill_wires_KeyError:
  "\<not> wires_bound w ws \<Longrightarrow> i + length ws \<le> length av \<Longrightarrow> length bv = length av
    \<Longrightarrow> length cv = length av \<Longrightarrow> fill_wires w ws i (av, bv, cv) = Inl KeyError"
proof (induction ws arbitrary: i av bv cv)
  case Nil
  then show ?case by (simp add: wires_bound_def)
next
  case (Cons wire ws)
  show ?case
  proof (cases "w (wire_L wire) \<noteq> None \<and> w (wire_R wire) \<noteq> None \<and> w (wire_O wire) \<noteq> None")
    case True
    then obtain a b c where abc: "w (wire_L wire) = Some a" "w (wire_R wire) = Some b"
      "w (wire_O wire) = Some c" by auto
    from True Cons.prems(1) have nb: "\<not> wires_bound w ws" by (simp add: wires_bound_def)
    from Cons.prems have i: "i < length av" "i < length bv" "i < length cv" by simp_all
    have "fill_wires w (wire # ws) i (av, bv, cv)
        = fill_wires w ws (Suc i) (av[i := a], bv[i := b], cv[i := c])"
      using i abc by simp
    also have "\<dots> = Inl KeyError"
      using Cons.prems nb by (intro Cons.IH) simp_all
    finally show ?thesis .
  next
    case False
    from Cons.prems have i: "i < length av" "i < length bv" "i < length cv" by simp_all
    from False i show ?thesis by (auto split: option.splits)
  qed
qed

lemma round_1_result:
  fixes self :: "('f::field, 'g) Prover" and w :: witness
  assumes wf: "wf_pk (self_group_order self) (self_pk self)"
    and PI: "self_PI self = Some PI" "lagrange_n (self_group_order self) PI"
    and len: "length (wires (self_program self)) \<le> self_group_order self"
  defines "n \<equiv> self_group_order self"
  defines "w' \<equiv> (if w None = None then w(None \<mapsto> 0) else w)"
  defines "A \<equiv> \<lparr>vals = map of_int (wire_column w' (wires (self_program self)) wire_L n), basis = LAGRANGE\<rparr>"
  defines "B \<equiv> \<lparr>vals = map of_int (wire_column w' (wires (self_program self)) wire_R n), basis = LAGRANGE\<rparr>"
  defines "C \<equiv> \<lparr>vals = map of_int (wire_column w' (wires (self_program self)) wire_O n), basis = LAGRANGE\<rparr>"
  shows "round_1 (self, w) =
    (if \<not> wires_bound w' (wires (self_program self)) then (Inl KeyError, (self, w'))
     else
      (case round_1_commits (self_setup self) A B C of
         Inl e \<Rightarrow> Inl e
       | Inr msg \<Rightarrow>
           if \<forall>i<n. gate_at (vals A) (vals B) (vals C) (self_pk self) (vals PI) i = 0
           then Inr msg else Inl AssertionError,
       (self\<lparr>self_A := Some A, self_B := Some B, self_C := Some C\<rparr>, w')))"
proof (cases "wires_bound w' (wires (self_program self))")
  case False
  have "fill_wires w' (wires (self_program self)) 0 (replicate n 0, replicate n 0, replicate n 0)
    = Inl KeyError"
    using False len unfolding n_def by (intro fill_wires_KeyError) simp_all
  with False show ?thesis
    by (simp add: round_1_def bind_st_def gets_def assign_def flip: n_def w'_def)
next
  case True
  have fw: "fill_wires w' (wires (self_program self)) 0 (replicate n 0, replicate n 0, replicate n 0)
    = Inr (wire_column w' (wires (self_program self)) wire_L n,
           wire_column w' (wires (self_program self)) wire_R n,
           wire_column w' (wires (self_program self)) wire_O n)"
    using True len unfolding n_def by (rule fill_wires_columns)
  have l: "lagrange_n n A" "lagrange_n n B" "lagrange_n n C"
    using len by (simp_all add: lagrange_n_def A_def B_def C_def length_wire_column n_def)
  have ge: "gate_expr A B C (self_pk self) (Some PI) =
     Inr \<lparr>vals = map (gate_at (vals A) (vals B) (vals C) (self_pk self) (vals PI)) [0..<n], basis = LAGRANGE\<rparr>"
    using l wf PI(2) unfolding n_def by (rule gate_expr_Inr)
  show ?thesis
    using fw ge PI(1) True
    by (auto simp add: round_1_def bind_st_def gets_def assign_def py_assert_def returns_def
        lift_err_def round_1_commits_def bind_err_def zero_poly_iff
        simp flip: n_def w'_def A_def B_def C_def split: sum.splits)
qed

text \<open>
  Claim C1, as amended.  Let the prover state be well formed (the preprocessed polynomials
  and the public-input polynomial are \<open>LAGRANGE\<close> of length \<open>n\<close>, at most \<open>n\<close> wires).
  When the witness, after the entry \<open>None \<mapsto> 0\<close> was added, lacks a variable that some wire
  names, \<open>round_1\<close> raises \<open>KeyError\<close> while it fills the wire columns, whatever the gate
  identity says.  Otherwise \<open>A\<close>, \<open>B\<close>, \<open>C\<close> are built and committed to in this order, and an
  exception raised by \<open>setup.commit\<close> aborts \<open>round_1\<close> before the gate identity is checked.
  Otherwise \<open>round_1\<close> raises if and only if the gate identity
  \<open>A QL + B QR + A B QM + C QO + PI + QC = 0\<close> fails at some root of unity \<open>\<omega>^i\<close>, \<open>i < n\<close>
  (row \<open>i\<close> of the \<open>LAGRANGE\<close> polynomials), the exception being the failed assertion, and
  when the identity holds in every row it returns the message
  \<open>(commit(A), commit(B), commit(C))\<close>.  So \<open>round_1\<close> aborts if and only if a wire variable
  is missing, a commitment fails or the gate identity fails in some row.
\<close>

theorem round_1_outcome:
  fixes self :: "('f::field, 'g) Prover"
  assumes "wf_pk (self_group_order self) (self_pk self)"
    and "self_PI self = Some PI" and "lagrange_n (self_group_order self) PI"
    and "length (wires (self_program self)) \<le> self_group_order self"
  shows "fst (round_1 (self, w)) =
           (if \<not> wires_bound (with_None w) (wires (self_program self)) then Inl KeyError
            else case wire_commits self w of
                   Inl e \<Rightarrow> Inl e
                 | Inr msg \<Rightarrow>
                     if \<forall>i<self_group_order self. gate_holds_at self w PI i
                     then Inr msg else Inl AssertionError)
       \<and> ((\<exists>e. fst (round_1 (self, w)) = Inl e) \<longleftrightarrow>
            \<not> wires_bound (with_None w) (wires (self_program self))
            \<or> (\<exists>e. wire_commits self w = Inl e)
            \<or> (\<exists>i<self_group_order self. \<not> gate_holds_at self w PI i))"
proof -
  have eq: "fst (round_1 (self, w)) =
           (if \<not> wires_bound (with_None w) (wires (self_program self)) then Inl KeyError
            else case wire_commits self w of
                   Inl e \<Rightarrow> Inl e
                 | Inr msg \<Rightarrow>
                     if \<forall>i<self_group_order self. gate_holds_at self w PI i
                     then Inr msg else Inl AssertionError)"
    using round_1_result [OF assms, of w]
    by (auto simp add: gate_holds_at_def wire_poly_def with_None_def wire_commits_def
        split: sum.splits)
  show ?thesis
    by (rule conjI [OF eq]) (auto simp add: eq split: sum.splits)
qed

lemma ex_wf_pk: "wf_pk 2 ex_pk"
  by (simp add: wf_pk_def lagrange_n_def ex_pk_def ex_poly_def)

theorem round_1_outcome_witness:
  "wf_pk (self_group_order (ex_prover\<lparr>self_PI := Some (ex_poly [0, 0])\<rparr>))
      (self_pk (ex_prover\<lparr>self_PI := Some (ex_poly [0, 0])\<rparr>))
   \<and> lagrange_n 2 (ex_poly [0, 0])
   \<and> wires_bound (with_None ex_witness) (wires ex_program)
   \<and> gate_holds_at (ex_prover\<lparr>self_PI := Some (ex_poly [0, 0])\<rparr>) ex_witness (ex_poly [0, 0]) 0
   \<and> gate_holds_at (ex_prover\<lparr>self_PI := Some (ex_poly [0, 0])\<rparr>) ex_witness (ex_poly [0, 0]) 1
   \<and> fst (round_1 (ex_prover\<lparr>self_PI := Some (ex_poly [0, 0])\<rparr>, ex_witness)) =
       Inr (Message1 (ex_poly [3, 8]) (ex_poly [5, 3]) (ex_poly [8, 11]))
   \<and> \<not> gate_holds_at (ex_prover\<lparr>self_PI := Some (ex_poly [0, 0])\<rparr>)
         (ex_witness(Some ''z'' \<mapsto> 9)) (ex_poly [0, 0]) 0
   \<and> fst (round_1 (ex_prover\<lparr>self_PI := Some (ex_poly [0, 0])\<rparr>, ex_witness(Some ''z'' \<mapsto> 9)))
       = Inl AssertionError
   \<and> \<not> wires_bound (with_None (ex_witness(Some ''w'' := None))) (wires ex_program)
   \<and> fst (round_1 (ex_prover\<lparr>self_PI := Some (ex_poly [0, 0])\<rparr>, ex_witness(Some ''w'' := None)))
       = Inl KeyError"
proof -
  let ?self = "ex_prover\<lparr>self_PI := Some (ex_poly [0, 0])\<rparr>"
  have sel0: "self_group_order ex_prover = 2" "self_pk ex_prover = ex_pk"
    "self_program ex_prover = ex_program" "self_setup ex_prover = ex_setup"
    by (simp_all add: ex_prover_def new_Prover_def ex_program_def)
  have sel: "self_group_order ?self = 2" "self_pk ?self = ex_pk" "self_program ?self = ex_program"
    "self_PI ?self = Some (ex_poly [0, 0])" "self_setup ?self = ex_setup"
    by (simp_all add: sel0)
  have h1: "wf_pk (self_group_order ?self) (self_pk ?self)" by (simp only: sel ex_wf_pk)
  have h3: "lagrange_n (self_group_order ?self) (ex_poly [0, 0])"
    by (simp add: sel0 lagrange_n_def ex_poly_def)
  have h4: "length (wires (self_program ?self)) \<le> self_group_order ?self"
    by (simp add: sel0 ex_program_def)
  have h5: "wires_bound (with_None w) (wires (self_program ?self))"
    if "w = ex_witness \<or> w = ex_witness(Some ''z'' \<mapsto> 9)" for w
    using that by (auto simp add: sel0 wires_bound_def with_None_def ex_witness_def ex_program_def)
  have h6: "\<not> wires_bound (with_None (ex_witness(Some ''w'' := None))) (wires (self_program ?self))"
    by (simp add: sel0 wires_bound_def with_None_def ex_witness_def ex_program_def)
  have wp: "wire_poly ex_witness (wires ex_program) wire_L 2 = ex_poly [3, 8]"
      "wire_poly ex_witness (wires ex_program) wire_R 2 = ex_poly [5, 3]"
      "wire_poly ex_witness (wires ex_program) wire_O 2 = ex_poly [8, 11]"
      "wire_poly (ex_witness(Some ''z'' \<mapsto> 9)) (wires ex_program) wire_L 2 = ex_poly [3, 9]"
      "wire_poly (ex_witness(Some ''z'' \<mapsto> 9)) (wires ex_program) wire_R 2 = ex_poly [5, 3]"
      "wire_poly (ex_witness(Some ''z'' \<mapsto> 9)) (wires ex_program) wire_O 2 = ex_poly [9, 11]"
    by (simp_all add: wire_poly_def wire_column_def with_None_def ex_witness_def ex_program_def
        ex_poly_def gf17_simps)
  have wc: "wire_commits ?self ex_witness =
      Inr (Message1 (ex_poly [3, 8]) (ex_poly [5, 3]) (ex_poly [8, 11]))"
    "wire_commits ?self (ex_witness(Some ''z'' \<mapsto> 9)) =
      Inr (Message1 (ex_poly [3, 9]) (ex_poly [5, 3]) (ex_poly [9, 11]))"
    by (simp_all add: wire_commits_def round_1_commits_def bind_err_def sel0 wp ex_setup_def)
  have g0: "gate_holds_at ?self ex_witness (ex_poly [0, 0]) 0"
    and g1: "gate_holds_at ?self ex_witness (ex_poly [0, 0]) 1"
    and g2: "\<not> gate_holds_at ?self (ex_witness(Some ''z'' \<mapsto> 9)) (ex_poly [0, 0]) 0"
    unfolding gate_holds_at_def sel
    by (simp_all add: wp gate_at_def ex_pk_def ex_poly_def gf17_simps)
  have all: "\<forall>i<self_group_order ?self. gate_holds_at ?self ex_witness (ex_poly [0, 0]) i"
    using g0 g1 by (simp add: sel0 less_Suc_eq numeral_2_eq_2)
  have ex: "\<not> (\<forall>i<self_group_order ?self. gate_holds_at ?self (ex_witness(Some ''z'' \<mapsto> 9)) (ex_poly [0, 0]) i)"
    using g2 by (simp add: sel0) (rule exI [of _ 0], simp)
  from round_1_outcome [OF h1 sel(4) h3 h4, of ex_witness] all h5 [of ex_witness]
  have r1: "fst (round_1 (?self, ex_witness)) =
       Inr (Message1 (ex_poly [3, 8]) (ex_poly [5, 3]) (ex_poly [8, 11]))"
    by (simp only: wc sum.case if_True if_False not_True_eq_False) simp
  from round_1_outcome [OF h1 sel(4) h3 h4, of "ex_witness(Some ''z'' \<mapsto> 9)"] ex
    h5 [of "ex_witness(Some ''z'' \<mapsto> 9)"]
  have r2: "fst (round_1 (?self, ex_witness(Some ''z'' \<mapsto> 9))) = Inl AssertionError"
    by (simp only: wc sum.case if_True if_False not_True_eq_False) simp
  from round_1_outcome [OF h1 sel(4) h3 h4, of "ex_witness(Some ''w'' := None)"] h6
  have r3: "fst (round_1 (?self, ex_witness(Some ''w'' := None))) = Inl KeyError"
    by (simp only: if_True) simp
  from h1 h3 h5 [of ex_witness] h6 g0 g1 g2 r1 r2 r3 show ?thesis by (simp add: sel0)
qed

text \<open>
  Claim C1, as stated, fails.  The circuit has the rows \<open>x + y = z\<close> and \<open>z = w\<close>, the second
  of which names a variable \<open>u\<close> on its right wire with selector \<open>QR = 0\<close>; the witness binds
  \<open>x\<close>, \<open>y\<close>, \<open>z\<close>, \<open>w\<close> and not \<open>u\<close>.  The state is well formed, \<open>round_1\<close> aborts with
  \<open>KeyError\<close>, and the gate identity holds in both rows whatever value \<open>u\<close> is given.
\<close>

theorem round_1_counterexample:
  "wf_pk (self_group_order ex_prover_u) (self_pk ex_prover_u)
   \<and> self_PI ex_prover_u = Some (ex_poly [0, 0])
   \<and> lagrange_n (self_group_order ex_prover_u) (ex_poly [0, 0])
   \<and> length (wires (self_program ex_prover_u)) \<le> self_group_order ex_prover_u
   \<and> self_group_order ex_prover_u = 2
   \<and> fst (round_1 (ex_prover_u, ex_witness_u)) = Inl KeyError
   \<and> (\<forall>u. gate_holds_at ex_prover_u (ex_witness_u(Some ''u'' \<mapsto> u)) (ex_poly [0, 0]) 0
          \<and> gate_holds_at ex_prover_u (ex_witness_u(Some ''u'' \<mapsto> u)) (ex_poly [0, 0]) 1)"
proof -
  have sel: "self_group_order ex_prover_u = 2" "self_pk ex_prover_u = ex_pk_u"
    "self_program ex_prover_u = ex_program_u" "self_setup ex_prover_u = ex_setup"
    "self_PI ex_prover_u = Some (ex_poly [0, 0])"
    by (simp_all add: ex_prover_u_def new_Prover_def ex_program_u_def)
  have wf: "wf_pk 2 ex_pk_u"
    by (simp add: wf_pk_def lagrange_n_def ex_pk_u_def ex_poly_def)
  have l: "lagrange_n 2 (ex_poly [0, 0])" by (simp add: lagrange_n_def ex_poly_def)
  have r: "fst (round_1 (ex_prover_u, ex_witness_u)) = Inl KeyError"
    by (simp add: round_1_def bind_st_def gets_def assign_def sel ex_program_u_def
        ex_witness_u_def)
  have g: "gate_holds_at ex_prover_u (ex_witness_u(Some ''u'' \<mapsto> u)) (ex_poly [0, 0]) 0
          \<and> gate_holds_at ex_prover_u (ex_witness_u(Some ''u'' \<mapsto> u)) (ex_poly [0, 0]) 1" for u
    unfolding gate_holds_at_def sel
    by (simp add: wire_poly_def wire_column_def with_None_def ex_witness_u_def ex_program_u_def
        gate_at_def ex_pk_u_def ex_poly_def gf17_simps)
  from wf l r g show ?thesis by (simp add: sel ex_program_u_def)
qed

subsection \<open>Round 2: the permutation accumulator\<close>

lemma roots_of_unity_nth: "i < n \<Longrightarrow> roots_of_unity rt n ! i = rt n ^ i"
  by (simp add: roots_of_unity_def)

lemma length_roots_of_unity: "length (roots_of_unity rt n) = n"
  by (simp add: roots_of_unity_def)

lemma Z_step_eq:
  "i < n \<Longrightarrow> Z_step beta gamma A B C pk (roots_of_unity rt n) i z =
     z * perm_num beta gamma A B C (rt n) i / perm_den beta gamma A B C pk i"
  by (simp add: Z_step_def perm_num_def perm_den_def roots_of_unity_nth divide_simps
      mult.assoc)

lemma foldl_snoc_last:
  "(\<And>i. i < k \<Longrightarrow> g (Suc i) = f i (g i)) \<Longrightarrow>
   foldl (\<lambda>zs i. zs @ [f i (last zs)]) [g 0] [0..<k] = map g [0..<Suc k]"
proof (induction k)
  case 0
  then show ?case by simp
next
  case (Suc k)
  then have "foldl (\<lambda>zs i. zs @ [f i (last zs)]) [g 0] [0..<k] = map g [0..<Suc k]" by simp
  moreover have "last (map g [0..<Suc k]) = g k" by simp
  ultimately show ?case using Suc.prems [of k] by simp
qed

lemma Z_loop_eq:
  "k \<le> n \<Longrightarrow> foldl (\<lambda>Z_values i. Z_values @ [Z_step beta gamma A B C pk (roots_of_unity rt n) i (last Z_values)])
       [1] [0..<k] = map (Z_acc beta gamma A B C pk (rt n)) [0..<Suc k]"
  using foldl_snoc_last [of k "Z_acc beta gamma A B C pk (rt n)"
      "Z_step beta gamma A B C pk (roots_of_unity rt n)"]
  by (simp add: Z_step_eq)

lemma Z_loop_acc:
  "Z_loop beta gamma A B C pk (roots_of_unity rt n) n = map (Z_acc beta gamma A B C pk (rt n)) [0..<Suc n]"
  unfolding Z_loop_def by (rule Z_loop_eq) simp

lemma Z_check_eq:
  assumes "i < n"
  shows "Z_check beta gamma A B C pk (roots_of_unity rt n) n
           (map (Z_acc beta gamma A B C pk (rt n)) [0..<n]) i
         \<longleftrightarrow> wrap_identity beta gamma A B C pk (rt n) n i"
proof -
  have "(i + 1) mod n < n" using assms by simp
  then show ?thesis
    using assms
    by (simp add: Z_check_def wrap_identity_def perm_num_def perm_den_def roots_of_unity_nth
        del: upt_Suc)
qed

lemma round_2_result:
  fixes self :: "('f::field, 'g) Prover" and rt :: "nat \<Rightarrow> 'f"
  assumes reads: "round_2_reads self = Inr (A, B, C, beta, gamma)"
  defines "n \<equiv> self_group_order self"
  defines "Zf \<equiv> Z_acc beta gamma A B C (self_pk self) (rt n)"
  defines "Z \<equiv> \<lparr>vals = map Zf [0..<n], basis = LAGRANGE\<rparr>"
  shows "round_2 rt self =
    (if Zf n = 1 \<and> (\<forall>i<n. wrap_identity beta gamma A B C (self_pk self) (rt n) n i)
     then case commit (self_setup self) Z of
            Inl e \<Rightarrow> (Inl e, self)
          | Inr z \<Rightarrow> (Inr (Message2 z), self\<lparr>self_Z := Some Z\<rparr>)
     else (Inl AssertionError, self))"
proof -
  have loop: "Z_loop beta gamma A B C (self_pk self) (roots_of_unity rt n) n
      = map Zf [0..<Suc n]"
    unfolding Zf_def by (rule Z_loop_acc)
  have l: "last (map Zf [0..<Suc n]) = Zf n" by simp
  have b: "butlast (map Zf [0..<Suc n]) = map Zf [0..<n]" by (simp add: butlast_append)
  have chk: "(\<forall>i \<in> set [0..<n]. Z_check beta gamma A B C (self_pk self)
        (roots_of_unity rt n) n (map Zf [0..<n]) i)
     \<longleftrightarrow> (\<forall>i<n. wrap_identity beta gamma A B C (self_pk self) (rt n) n i)"
    unfolding Zf_def using Z_check_eq [of _ n beta gamma A B C "self_pk self" rt]
    by auto
  show ?thesis
    unfolding round_2_def
    by (simp only: bind_st_def gets_def Let_def case_prod_conv reads loop l b chk py_assert_def
        returns_def assign_def lift_err_def sum.case flip: n_def Z_def split: if_splits)
      (auto split: sum.splits)
qed

lemma round_2_reads_fail:
  "round_2_reads self = Inl e \<Longrightarrow> round_2 rt self = (Inl e, self)"
  by (simp add: round_2_def bind_st_def gets_def Let_def)

text \<open>
  Claim C2.  \<open>round_2\<close> first reads the wire polynomials, the challenges and the
  permutation polynomials (\<open>round_2_reads\<close>; a missing attribute or a list shorter than
  \<open>n\<close> raises there).  With the values \<open>A\<close>, \<open>B\<close>, \<open>C\<close>, \<open>\<beta>\<close>, \<open>\<gamma>\<close> read, the accumulator values
  are \<open>Z\<^sub>0 = 1\<close> and \<open>Z\<^sub>i\<^sub>+\<^sub>1 = Z\<^sub>i * rlc(A\<^sub>i, \<omega>^i) * rlc(B\<^sub>i, 2 \<omega>^i) * rlc(C\<^sub>i, 3 \<omega>^i) /
  (rlc(A\<^sub>i, S1\<^sub>i) * rlc(B\<^sub>i, S2\<^sub>i) * rlc(C\<^sub>i, S3\<^sub>i))\<close> with \<open>rlc(u, w) = u + \<beta> w + \<gamma>\<close>;
  \<open>round_2\<close> aborts unless \<open>Z\<^sub>n = 1\<close>, and unless the wrap-around identity
  \<open>numerator\<^sub>i * Z\<^sub>i - denominator\<^sub>i * Z\<^sub>(\<^sub>i\<^sub>+\<^sub>1\<^sub>)\<^sub> \<^sub>m\<^sub>o\<^sub>d\<^sub> \<^sub>n = 0\<close> holds for every \<open>i < n\<close>; only then it commits
  to \<open>Z = [Z\<^sub>0, \<dots>, Z\<^sub>n\<^sub>-\<^sub>1]\<close>, a \<open>LAGRANGE\<close> polynomial of length exactly \<open>n\<close> whose first value
  \<open>Z(\<omega>^0)\<close> is \<open>1\<close>, stores it and returns the commitment.
\<close>

theorem round_2_accumulator:
  fixes self :: "('f::field, 'g) Prover" and rt :: "nat \<Rightarrow> 'f"
  defines "n \<equiv> self_group_order self"
  shows "round_2 rt self =
     (case round_2_reads self of
        Inl e \<Rightarrow> (Inl e, self)
      | Inr (A, B, C, beta, gamma) \<Rightarrow>
          if Z_acc beta gamma A B C (self_pk self) (rt n) n \<noteq> 1 then (Inl AssertionError, self)
          else if \<not> (\<forall>i<n. wrap_identity beta gamma A B C (self_pk self) (rt n) n i)
          then (Inl AssertionError, self)
          else case commit (self_setup self) (accumulator beta gamma A B C (self_pk self) (rt n) n) of
                 Inl e \<Rightarrow> (Inl e, self)
               | Inr z \<Rightarrow> (Inr (Message2 z),
                   self\<lparr>self_Z := Some (accumulator beta gamma A B C (self_pk self) (rt n) n)\<rparr>))
   \<and> Z_acc beta gamma A B C pk omega 0 = 1
   \<and> (\<forall>i<n. Z_acc beta gamma A B C pk omega (i + 1) =
         Z_acc beta gamma A B C pk omega i
         * (rlc beta gamma (A ! i) (omega ^ i) * rlc beta gamma (B ! i) (2 * omega ^ i)
            * rlc beta gamma (C ! i) (3 * omega ^ i))
         / (rlc beta gamma (A ! i) (vals (S1 pk) ! i) * rlc beta gamma (B ! i) (vals (S2 pk) ! i)
            * rlc beta gamma (C ! i) (vals (S3 pk) ! i)))
   \<and> rlc beta gamma u w = u + beta * w + gamma
   \<and> basis (accumulator beta gamma A B C pk omega n) = LAGRANGE
   \<and> length (vals (accumulator beta gamma A B C pk omega n)) = n
   \<and> (\<forall>i<n. vals (accumulator beta gamma A B C pk omega n) ! i = Z_acc beta gamma A B C pk omega i)
   \<and> (0 < n \<longrightarrow> vals (accumulator beta gamma A B C pk omega n) ! 0 = 1)"
proof -
  have r: "round_2 rt self =
     (case round_2_reads self of
        Inl e \<Rightarrow> (Inl e, self)
      | Inr (A, B, C, beta, gamma) \<Rightarrow>
          if Z_acc beta gamma A B C (self_pk self) (rt n) n \<noteq> 1 then (Inl AssertionError, self)
          else if \<not> (\<forall>i<n. wrap_identity beta gamma A B C (self_pk self) (rt n) n i)
          then (Inl AssertionError, self)
          else case commit (self_setup self) (accumulator beta gamma A B C (self_pk self) (rt n) n) of
                 Inl e \<Rightarrow> (Inl e, self)
               | Inr z \<Rightarrow> (Inr (Message2 z),
                   self\<lparr>self_Z := Some (accumulator beta gamma A B C (self_pk self) (rt n) n)\<rparr>))"
  proof (cases "round_2_reads self")
    case (Inl e)
    then show ?thesis by (simp add: round_2_reads_fail)
  next
    case (Inr x)
    then obtain A' B' C' beta' gamma'
      where "round_2_reads self = Inr (A', B', C', beta', gamma')"
      by (cases x) auto
    then show ?thesis
      using round_2_result [of self A' B' C' beta' gamma' rt]
      unfolding accumulator_def n_def by (auto split: sum.splits)
  qed
  have nth: "map f [0..<n] ! i = f i" if "i < n" for f :: "nat \<Rightarrow> 'f" and i
    using that by simp
  show ?thesis
    by (intro conjI r)
      (simp_all add: accumulator_def perm_num_def perm_den_def rlc_def mult.commute nth)
qed

theorem round_2_accumulator_witness:
  "round_2_reads ex_prover_2 = Inr (map G [3, 8], map G [5, 3], map G [8, 11], G 1, G 1)
   \<and> Z_acc (G 1) (G 1) (map G [3, 8]) (map G [5, 3]) (map G [8, 11]) ex_pk (G 16) 1 = G 8
   \<and> Z_acc (G 1) (G 1) (map G [3, 8]) (map G [5, 3]) (map G [8, 11]) ex_pk (G 16) 2 = 1
   \<and> wrap_identity (G 1) (G 1) (map G [3, 8]) (map G [5, 3]) (map G [8, 11]) ex_pk (G 16) 2 0
   \<and> wrap_identity (G 1) (G 1) (map G [3, 8]) (map G [5, 3]) (map G [8, 11]) ex_pk (G 16) 2 1
   \<and> round_2 ex_rt ex_prover_2
       = (Inr (Message2 (ex_poly [1, 8])), ex_prover_2\<lparr>self_Z := Some (ex_poly [1, 8])\<rparr>)
   \<and> Z_acc (G 2) (G 3) (map G [3, 8]) (map G [5, 3]) (map G [8, 11]) ex_pk (G 16) 2 \<noteq> 1
   \<and> round_2 ex_rt (ex_prover_2\<lparr>self_beta := Some (G 2), self_gamma := Some (G 3)\<rparr>)
       = (Inl AssertionError, ex_prover_2\<lparr>self_beta := Some (G 2), self_gamma := Some (G 3)\<rparr>)"
proof -
  let ?A = "map G [3, 8]" and ?B = "map G [5, 3]" and ?C = "map G [8, 11]"
  let ?bad = "ex_prover_2\<lparr>self_beta := Some (G 2), self_gamma := Some (G 3)\<rparr>"
  have sel: "self_group_order ex_prover_2 = 2" "self_pk ex_prover_2 = ex_pk"
    "self_setup ex_prover_2 = ex_setup"
    "self_group_order ?bad = 2" "self_pk ?bad = ex_pk" "self_setup ?bad = ex_setup"
    by (simp_all add: ex_prover_2_def ex_prover_def new_Prover_def ex_program_def)
  have rt: "ex_rt 2 = G 16" by (simp add: ex_rt_def gf17_simps)
  have reads: "round_2_reads ex_prover_2 = Inr (?A, ?B, ?C, G 1, G 1)"
    by (simp add: round_2_reads_def ex_prover_2_def ex_prover_def new_Prover_def ex_program_def
        ex_pk_def ex_poly_def)
  have reads': "round_2_reads ?bad = Inr (?A, ?B, ?C, G 2, G 3)"
    by (simp add: round_2_reads_def ex_prover_2_def ex_prover_def new_Prover_def ex_program_def
        ex_pk_def ex_poly_def)
  have z: "Z_acc (G 1) (G 1) ?A ?B ?C ex_pk (G 16) 0 = G 1"
    "Z_acc (G 1) (G 1) ?A ?B ?C ex_pk (G 16) 1 = G 8"
    "Z_acc (G 1) (G 1) ?A ?B ?C ex_pk (G 16) 2 = G 1"
    by (simp_all add: eval_nat_numeral perm_num_def perm_den_def rlc_def ex_pk_def ex_poly_def
        gf17_simps)
  have z': "Z_acc (G 2) (G 3) ?A ?B ?C ex_pk (G 16) 2 \<noteq> 1"
    by (simp add: eval_nat_numeral perm_num_def perm_den_def rlc_def ex_pk_def ex_poly_def
        gf17_simps)
  have w: "wrap_identity (G 1) (G 1) ?A ?B ?C ex_pk (G 16) 2 0"
    "wrap_identity (G 1) (G 1) ?A ?B ?C ex_pk (G 16) 2 1"
    unfolding wrap_identity_def
    by (simp_all add: eval_nat_numeral perm_num_def perm_den_def rlc_def ex_pk_def ex_poly_def
        gf17_simps)
  have all: "\<forall>i<2. wrap_identity (G 1) (G 1) ?A ?B ?C ex_pk (G 16) 2 i"
    using w by (simp add: less_Suc_eq numeral_2_eq_2)
  have acc: "accumulator (G 1) (G 1) ?A ?B ?C ex_pk (G 16) 2 = ex_poly [1, 8]"
    using z by (simp add: accumulator_def ex_poly_def upt_rec [of 0] upt_rec [of 1] eval_nat_numeral)
  have r1: "round_2 ex_rt ex_prover_2
       = (Inr (Message2 (ex_poly [1, 8])), ex_prover_2\<lparr>self_Z := Some (ex_poly [1, 8])\<rparr>)"
    using round_2_accumulator [of ex_rt ex_prover_2, THEN conjunct1] all z(3)
    by (simp only: reads sum.case case_prod_conv sel rt acc G_one) (simp add: ex_setup_def)
  have r2: "round_2 ex_rt ?bad = (Inl AssertionError, ?bad)"
    using round_2_accumulator [of ex_rt ?bad, THEN conjunct1] z'
    by (simp only: reads' sum.case case_prod_conv sel rt) simp
  from reads z w r1 z' r2 show ?thesis by (simp add: G_one)
qed

end
